theory Spec2Isabelle
  imports Complex_Main
begin

section \<open>Strings and values of the page script\<close>

text \<open>
  The development embeds \<^verbatim>\<open>src/main.js\<close>, the login page script of a hotspot
  gateway. A string of the script is a HOL \<^typ>\<open>string\<close>: ASCII text character by
  character, and the Arabic literals of the script by the UTF-8 bytes they have in the
  source file. The identifiers and server messages the script inspects (user names, MAC
  addresses, RouterOS error texts, URLs) are ASCII, where one \<^typ>\<open>char\<close> is one
  character of the script's string.
\<close>

text \<open>\<^verbatim>\<open>String.prototype.toLowerCase\<close> on ASCII letters; every other character is kept.\<close>

definition lowerChar :: "char \<Rightarrow> char" where
  "lowerChar c =
     (case map_of (zip ''ABCDEFGHIJKLMNOPQRSTUVWXYZ'' ''abcdefghijklmnopqrstuvwxyz'') c of
        None \<Rightarrow> c
      | Some d \<Rightarrow> d)"

definition toLowerCase :: "string \<Rightarrow> string" where
  "toLowerCase s = map lowerChar s"

text \<open>\<^verbatim>\<open>s.startsWith(t)\<close> and \<^verbatim>\<open>s.includes(t)\<close>: \<open>t\<close> occurs in \<open>s\<close> as a contiguous run.\<close>

fun startsWith :: "string \<Rightarrow> string \<Rightarrow> bool" where
  "startsWith s [] = True"
| "startsWith [] (d # t) = False"
| "startsWith (c # s) (d # t) = (c = d \<and> startsWith s t)"

fun includes_str :: "string \<Rightarrow> string \<Rightarrow> bool" where
  "includes_str [] t = (t = [])"
| "includes_str (c # s) t = (startsWith (c # s) t \<or> includes_str s t)"

text \<open>\<^verbatim>\<open>String.prototype.trim\<close> for the ASCII white space and line terminators.\<close>

definition isSpace :: "char \<Rightarrow> bool" where
  "isSpace c = (c \<in> set [CHR 0x09, CHR 0x0A, CHR 0x0B, CHR 0x0C, CHR 0x0D, CHR 0x20])"

definition trim :: "string \<Rightarrow> string" where
  "trim s = rev (dropWhile isSpace (rev (dropWhile isSpace s)))"

text \<open>
  \<^verbatim>\<open>s.split(sep)\<close> for a non-empty separator: the pieces between the occurrences of
  \<open>sep\<close>, found from the left. \<open>skip\<close> counts the characters of a separator just
  matched that are still to be passed over, \<open>cur\<close> is the piece being collected.
\<close>

fun splitAux :: "string \<Rightarrow> nat \<Rightarrow> string \<Rightarrow> string \<Rightarrow> string list" where
  "splitAux sep skip cur [] = [cur]"
| "splitAux sep (Suc k) cur (c # s) = splitAux sep k cur s"
| "splitAux sep 0 cur (c # s) =
     (if startsWith (c # s) sep then cur # splitAux sep (length sep - 1) [] s
      else splitAux sep 0 (cur @ [c]) s)"

definition split :: "string \<Rightarrow> string \<Rightarrow> string list" where
  "split s sep = splitAux sep 0 [] s"

text \<open>\<^verbatim>\<open>pieces.join(sep)\<close>.\<close>

fun join :: "string \<Rightarrow> string list \<Rightarrow> string" where
  "join sep [] = []"
| "join sep [p] = p"
| "join sep (p # q # ps) = p @ sep @ join sep (q # ps)"

text \<open>Decimal digits of a natural number, and of an integer with its sign.\<close>

definition digitChar :: "nat \<Rightarrow> char" where
  "digitChar d = ''0123456789'' ! d"

fun decimal :: "nat \<Rightarrow> string" where
  "decimal n =
     (if n < 10 then [digitChar n]
      else decimal (n div 10) @ [digitChar (n mod 10)])"

declare decimal.simps [simp del]

definition showInt :: "int \<Rightarrow> string" where
  "showInt n = (if n < 0 then ''-'' @ decimal (nat (- n)) else decimal (nat n))"

text \<open>
  The scalar values a field of a JSON envelope holds. Numbers are the integers (byte
  counts, seconds); \<^verbatim>\<open>undefined\<close> is an absent field.
\<close>

datatype jsval = JNull | JBool bool | JNum int | JStr string

type_synonym envelope = "string \<rightharpoonup> jsval"

fun truthy :: "jsval \<Rightarrow> bool" where
  "truthy JNull = False"
| "truthy (JBool b) = b"
| "truthy (JNum n) = (n \<noteq> 0)"
| "truthy (JStr s) = (s \<noteq> [])"

text \<open>Truthiness of \<^verbatim>\<open>data.key\<close>: an absent field reads as \<^verbatim>\<open>undefined\<close>.\<close>

definition truthyField :: "envelope \<Rightarrow> string \<Rightarrow> bool" where
  "truthyField data key = (case data key of None \<Rightarrow> False | Some v \<Rightarrow> truthy v)"

text \<open>\<^verbatim>\<open>String(value)\<close>.\<close>

fun String_of :: "jsval \<Rightarrow> string" where
  "String_of JNull = ''null''"
| "String_of (JBool b) = (if b then ''true'' else ''false'')"
| "String_of (JNum n) = showInt n"
| "String_of (JStr s) = s"

text \<open>
  \<^verbatim>\<open>Number(value)\<close>, with \<open>None\<close> for \<^verbatim>\<open>NaN\<close>. How the built-in reads a string
  as a number is the parameter \<open>N\<close> (an integer, or \<open>None\<close> where the string is not
  numeric), so that nothing proved below depends on the grammar of numeric strings;
  byte counts are integers, and a string that denotes a fraction is outside the model.
\<close>

fun Number :: "(string \<Rightarrow> int option) \<Rightarrow> jsval \<Rightarrow> int option" where
  "Number N JNull = Some 0"
| "Number N (JBool b) = Some (if b then 1 else 0)"
| "Number N (JNum n) = Some n"
| "Number N (JStr s) = N s"

text \<open>
  \<^verbatim>\<open>Math.ceil\<close>, \<^verbatim>\<open>Math.round\<close> (halves go up) and \<^verbatim>\<open>x.toFixed(2)\<close> on exact
  values: the quotients the script forms (an integer by 2 or by a power of 1024) are
  exact in binary floating point. \<open>toFixed2\<close> takes the integer \<open>n\<close> with \<open>n / 100\<close>
  nearest to \<open>x\<close>, the larger one on a tie, pads it to three digits and puts the point
  before the last two.
\<close>

definition Math_ceil :: "rat \<Rightarrow> int" where
  "Math_ceil x = \<lceil>x\<rceil>"

definition Math_round :: "rat \<Rightarrow> int" where
  "Math_round x = \<lfloor>x + 1 / 2\<rfloor>"

definition toFixed2 :: "rat \<Rightarrow> string" where
  "toFixed2 x =
     (let s = (if x < 0 then ''-'' else '''');
          y = (if x < 0 then - x else x);
          n = nat \<lfloor>y * 100 + 1 / 2\<rfloor>;
          m = decimal n;
          m = (if length m \<le> 2 then replicate (3 - length m) (CHR ''0'') @ m else m)
      in s @ take (length m - 2) m @ ''.'' @ drop (length m - 2) m)"

section \<open>The Arabic literals\<close>

text \<open>Line 262 of \<^verbatim>\<open>src/main.js\<close>.\<close>

definition LABEL_SUBSCRIPTION :: string where
  "LABEL_SUBSCRIPTION =
    [CHR 0xD8, CHR 0xA7, CHR 0xD8, CHR 0xB4, CHR 0xD8, CHR 0xAA, CHR 0xD8, CHR 0xB1,
     CHR 0xD8, CHR 0xA7, CHR 0xD9, CHR 0x83]"

text \<open>Line 264 of \<^verbatim>\<open>src/main.js\<close>.\<close>

definition LABEL_FREE_TRIAL :: string where
  "LABEL_FREE_TRIAL =
    [CHR 0xD8, CHR 0xAA, CHR 0xD8, CHR 0xAC, CHR 0xD8, CHR 0xB1, CHR 0xD8, CHR 0xA8,
     CHR 0xD8, CHR 0xA9, CHR 0x20, CHR 0xD9, CHR 0x85, CHR 0xD8, CHR 0xAC, CHR 0xD8,
     CHR 0xA7, CHR 0xD9, CHR 0x86, CHR 0xD9, CHR 0x8A, CHR 0xD8, CHR 0xA9]"

text \<open>Line 245 of \<^verbatim>\<open>src/main.js\<close>.\<close>

definition WORD_DAY :: string where
  "WORD_DAY =
    [CHR 0xD9, CHR 0x8A, CHR 0xD9, CHR 0x88, CHR 0xD9, CHR 0x85]"

text \<open>Line 246 of \<^verbatim>\<open>src/main.js\<close>.\<close>

definition WORD_HOUR :: string where
  "WORD_HOUR =
    [CHR 0xD8, CHR 0xB3, CHR 0xD8, CHR 0xA7, CHR 0xD8, CHR 0xB9, CHR 0xD8, CHR 0xA9]"

text \<open>Line 247 of \<^verbatim>\<open>src/main.js\<close>.\<close>

definition WORD_MINUTE :: string where
  "WORD_MINUTE =
    [CHR 0xD8, CHR 0xAF, CHR 0xD9, CHR 0x82, CHR 0xD9, CHR 0x8A, CHR 0xD9, CHR 0x82,
     CHR 0xD8, CHR 0xA9]"

text \<open>Line 248 of \<^verbatim>\<open>src/main.js\<close>.\<close>

definition WORD_SECOND :: string where
  "WORD_SECOND =
    [CHR 0xD8, CHR 0xAB, CHR 0xD8, CHR 0xA7, CHR 0xD9, CHR 0x86, CHR 0xD9, CHR 0x8A,
     CHR 0xD8, CHR 0xA9]"

text \<open>Line 255 of \<^verbatim>\<open>src/main.js\<close>.\<close>

definition UNIT_BYTE :: string where
  "UNIT_BYTE =
    [CHR 0xD8, CHR 0xA8, CHR 0xD8, CHR 0xA7, CHR 0xD9, CHR 0x8A, CHR 0xD8, CHR 0xAA]"

text \<open>Line 256 of \<^verbatim>\<open>src/main.js\<close>.\<close>

definition UNIT_KILOBYTE :: string where
  "UNIT_KILOBYTE =
    [CHR 0xD9, CHR 0x83, CHR 0xD9, CHR 0x8A, CHR 0xD9, CHR 0x84, CHR 0xD9, CHR 0x88,
     CHR 0xD8, CHR 0xA8, CHR 0xD8, CHR 0xA7, CHR 0xD9, CHR 0x8A, CHR 0xD8, CHR 0xAA]"

text \<open>Line 257 of \<^verbatim>\<open>src/main.js\<close>.\<close>

definition UNIT_MEGABYTE :: string where
  "UNIT_MEGABYTE =
    [CHR 0xD9, CHR 0x85, CHR 0xD9, CHR 0x8A, CHR 0xD8, CHR 0xBA, CHR 0xD8, CHR 0xA7,
     CHR 0xD8, CHR 0xA8, CHR 0xD8, CHR 0xA7, CHR 0xD9, CHR 0x8A, CHR 0xD8, CHR 0xAA]"

text \<open>Line 258 of \<^verbatim>\<open>src/main.js\<close>.\<close>

definition UNIT_GIGABYTE :: string where
  "UNIT_GIGABYTE =
    [CHR 0xD8, CHR 0xAC, CHR 0xD9, CHR 0x8A, CHR 0xD8, CHR 0xAC, CHR 0xD8, CHR 0xA7,
     CHR 0xD8, CHR 0xA8, CHR 0xD8, CHR 0xA7, CHR 0xD9, CHR 0x8A, CHR 0xD8, CHR 0xAA]"

text \<open>Line 277 of \<^verbatim>\<open>src/main.js\<close>.\<close>

definition MSG_UNKNOWN_ERROR :: string where
  "MSG_UNKNOWN_ERROR =
    [CHR 0xD8, CHR 0xAD, CHR 0xD8, CHR 0xAF, CHR 0xD8, CHR 0xAB, CHR 0x20, CHR 0xD8,
     CHR 0xAE, CHR 0xD8, CHR 0xB7, CHR 0xD8, CHR 0xA3, CHR 0x20, CHR 0xD8, CHR 0xBA,
     CHR 0xD9, CHR 0x8A, CHR 0xD8, CHR 0xB1, CHR 0x20, CHR 0xD9, CHR 0x85, CHR 0xD8,
     CHR 0xB9, CHR 0xD8, CHR 0xB1, CHR 0xD9, CHR 0x88, CHR 0xD9, CHR 0x81, CHR 0x2E]"

text \<open>Line 281 of \<^verbatim>\<open>src/main.js\<close>.\<close>

definition MSG_USER_NOT_FOUND :: string where
  "MSG_USER_NOT_FOUND =
    [CHR 0xD9, CHR 0x87, CHR 0xD8, CHR 0xB0, CHR 0xD8, CHR 0xA7, CHR 0x20, CHR 0xD8,
     CHR 0xA7, CHR 0xD9, CHR 0x84, CHR 0xD8, CHR 0xAD, CHR 0xD8, CHR 0xB3, CHR 0xD8,
     CHR 0xA7, CHR 0xD8, CHR 0xA8, CHR 0x20, CHR 0xD8, CHR 0xBA, CHR 0xD9, CHR 0x8A,
     CHR 0xD8, CHR 0xB1, CHR 0x20, CHR 0xD9, CHR 0x85, CHR 0xD9, CHR 0x88, CHR 0xD8,
     CHR 0xAC, CHR 0xD9, CHR 0x88, CHR 0xD8, CHR 0xAF, CHR 0x20, CHR 0xD8, CHR 0xA3,
     CHR 0xD9, CHR 0x88, CHR 0x20, CHR 0xD9, CHR 0x82, CHR 0xD8, CHR 0xAF, CHR 0x20,
     CHR 0xD8, CHR 0xA7, CHR 0xD9, CHR 0x86, CHR 0xD8, CHR 0xAA, CHR 0xD9, CHR 0x87,
     CHR 0xD8, CHR 0xAA, CHR 0x20, CHR 0xD8, CHR 0xB5, CHR 0xD9, CHR 0x84, CHR 0xD8,
     CHR 0xA7, CHR 0xD8, CHR 0xAD, CHR 0xD9, CHR 0x8A, CHR 0xD8, CHR 0xAA, CHR 0xD9,
     CHR 0x87, CHR 0xD8, CHR 0x8C, CHR 0x20, CHR 0xD8, CHR 0xAD, CHR 0xD8, CHR 0xA7,
     CHR 0xD9, CHR 0x88, CHR 0xD9, CHR 0x84, CHR 0x20, CHR 0xD9, CHR 0x85, CHR 0xD8,
     CHR 0xB1, CHR 0xD8, CHR 0xA9, CHR 0x20, CHR 0xD8, CHR 0xA7, CHR 0xD8, CHR 0xAE,
     CHR 0xD8, CHR 0xB1, CHR 0xD9, CHR 0x89, CHR 0x2E]"

text \<open>Line 282 of \<^verbatim>\<open>src/main.js\<close>.\<close>

definition MSG_CARD_IN_USE :: string where
  "MSG_CARD_IN_USE =
    [CHR 0xD8, CHR 0xA7, CHR 0xD9, CHR 0x84, CHR 0xD9, CHR 0x85, CHR 0xD8, CHR 0xB9,
     CHR 0xD8, CHR 0xB0, CHR 0xD8, CHR 0xB1, CHR 0xD8, CHR 0xA9, CHR 0xD8, CHR 0x8C,
     CHR 0x20, CHR 0xD9, CHR 0x87, CHR 0xD8, CHR 0xB0, CHR 0xD8, CHR 0xA7, CHR 0x20,
     CHR 0xD8, CHR 0xA7, CHR 0xD9, CHR 0x84, CHR 0xD9, CHR 0x83, CHR 0xD8, CHR 0xB1,
     CHR 0xD8, CHR 0xAA, CHR 0x20, CHR 0xD9, CHR 0x85, CHR 0xD8, CHR 0xB3, CHR 0xD8,
     CHR 0xAA, CHR 0xD8, CHR 0xAE, CHR 0xD8, CHR 0xAF, CHR 0xD9, CHR 0x85, CHR 0x20,
     CHR 0xD8, CHR 0xAD, CHR 0xD8, CHR 0xA7, CHR 0xD9, CHR 0x84, CHR 0xD9, CHR 0x8A,
     CHR 0xD8, CHR 0xA7, CHR 0xD9, CHR 0x8B, CHR 0x20, CHR 0xD9, CHR 0x81, CHR 0xD9,
     CHR 0x8A, CHR 0x20, CHR 0xD8, CHR 0xAC, CHR 0xD9, CHR 0x87, CHR 0xD8, CHR 0xA7,
     CHR 0xD8, CHR 0xB2, CHR 0x20, CHR 0xD8, CHR 0xA2, CHR 0xD8, CHR 0xAE, CHR 0xD8,
     CHR 0xB1, CHR 0x2E]"

text \<open>Line 284 of \<^verbatim>\<open>src/main.js\<close>.\<close>

definition MSG_INVALID_PASSWORD :: string where
  "MSG_INVALID_PASSWORD =
    [CHR 0xD8, CHR 0xAA, CHR 0xD8, CHR 0xA3, CHR 0xD9, CHR 0x83, CHR 0xD8, CHR 0xAF,
     CHR 0x20, CHR 0xD9, CHR 0x85, CHR 0xD9, CHR 0x86, CHR 0x20, CHR 0xD9, CHR 0x83,
     CHR 0xD8, CHR 0xAA, CHR 0xD8, CHR 0xA7, CHR 0xD8, CHR 0xA8, CHR 0xD8, CHR 0xA9,
     CHR 0x20, CHR 0xD9, CHR 0x83, CHR 0xD9, CHR 0x84, CHR 0xD9, CHR 0x85, CHR 0xD8,
     CHR 0xA9, CHR 0x20, CHR 0xD8, CHR 0xA7, CHR 0xD9, CHR 0x84, CHR 0xD9, CHR 0x85,
     CHR 0xD8, CHR 0xB1, CHR 0xD9, CHR 0x88, CHR 0xD8, CHR 0xB1, CHR 0x20, CHR 0xD8,
     CHR 0xA8, CHR 0xD8, CHR 0xB4, CHR 0xD9, CHR 0x83, CHR 0xD9, CHR 0x84, CHR 0x20,
     CHR 0xD8, CHR 0xB5, CHR 0xD8, CHR 0xAD, CHR 0xD9, CHR 0x8A, CHR 0xD8, CHR 0xAD,
     CHR 0x2E]"

text \<open>Line 285 of \<^verbatim>\<open>src/main.js\<close>.\<close>

definition MSG_TIME_EXPIRED :: string where
  "MSG_TIME_EXPIRED =
    [CHR 0xD8, CHR 0xB9, CHR 0xD8, CHR 0xB0, CHR 0xD8, CHR 0xB1, CHR 0xD8, CHR 0xA7,
     CHR 0xD9, CHR 0x8B, CHR 0x20, CHR 0xD9, CHR 0x84, CHR 0xD9, CHR 0x82, CHR 0xD8,
     CHR 0xAF, CHR 0x20, CHR 0xD8, CHR 0xA7, CHR 0xD9, CHR 0x86, CHR 0xD8, CHR 0xAA,
     CHR 0xD9, CHR 0x87, CHR 0xD9, CHR 0x89, CHR 0x20, CHR 0xD8, CHR 0xA7, CHR 0xD9,
     CHR 0x84, CHR 0xD9, CHR 0x88, CHR 0xD9, CHR 0x82, CHR 0xD8, CHR 0xAA, CHR 0x20,
     CHR 0xD8, CHR 0xA7, CHR 0xD9, CHR 0x84, CHR 0xD9, CHR 0x85, CHR 0xD8, CHR 0xAA,
     CHR 0xD8, CHR 0xA7, CHR 0xD8, CHR 0xAD, CHR 0x20, CHR 0xD9, CHR 0x84, CHR 0xD9,
     CHR 0x83, CHR 0x2E]"

text \<open>Line 288 of \<^verbatim>\<open>src/main.js\<close>.\<close>

definition MSG_BALANCE_EXPIRED :: string where
  "MSG_BALANCE_EXPIRED =
    [CHR 0xD9, CHR 0x84, CHR 0xD9, CHR 0x82, CHR 0xD8, CHR 0xAF, CHR 0x20, CHR 0xD8,
     CHR 0xA7, CHR 0xD9, CHR 0x86, CHR 0xD8, CHR 0xAA, CHR 0xD9, CHR 0x87, CHR 0xD9,
     CHR 0x89, CHR 0x20, CHR 0xD8, CHR 0xB1, CHR 0xD8, CHR 0xB5, CHR 0xD9, CHR 0x8A,
     CHR 0xD8, CHR 0xAF, CHR 0x20, CHR 0xD9, CHR 0x87, CHR 0xD8, CHR 0xB0, CHR 0xD8,
     CHR 0xA7, CHR 0x20, CHR 0xD8, CHR 0xA7, CHR 0xD9, CHR 0x84, CHR 0xD8, CHR 0xAD,
     CHR 0xD8, CHR 0xB3, CHR 0xD8, CHR 0xA7, CHR 0xD8, CHR 0xA8, CHR 0x2E]"

text \<open>Line 290 of \<^verbatim>\<open>src/main.js\<close>.\<close>

definition MSG_BAD_CREDENTIALS :: string where
  "MSG_BAD_CREDENTIALS =
    [CHR 0xD8, CHR 0xA7, CHR 0xD8, CHR 0xB3, CHR 0xD9, CHR 0x85, CHR 0x20, CHR 0xD8,
     CHR 0xA7, CHR 0xD9, CHR 0x84, CHR 0xD9, CHR 0x85, CHR 0xD8, CHR 0xB3, CHR 0xD8,
     CHR 0xAA, CHR 0xD8, CHR 0xAE, CHR 0xD8, CHR 0xAF, CHR 0xD9, CHR 0x85, CHR 0x20,
     CHR 0xD8, CHR 0xA3, CHR 0xD9, CHR 0x88, CHR 0x20, CHR 0xD9, CHR 0x83, CHR 0xD9,
     CHR 0x84, CHR 0xD9, CHR 0x85, CHR 0xD8, CHR 0xA9, CHR 0x20, CHR 0xD8, CHR 0xA7,
     CHR 0xD9, CHR 0x84, CHR 0xD9, CHR 0x85, CHR 0xD8, CHR 0xB1, CHR 0xD9, CHR 0x88,
     CHR 0xD8, CHR 0xB1, CHR 0x20, CHR 0xD8, CHR 0xBA, CHR 0xD9, CHR 0x8A, CHR 0xD8,
     CHR 0xB1, CHR 0x20, CHR 0xD8, CHR 0xB5, CHR 0xD8, CHR 0xAD, CHR 0xD9, CHR 0x8A,
     CHR 0xD8, CHR 0xAD, CHR 0xD8, CHR 0xA9, CHR 0xD8, CHR 0x8C, CHR 0x20, CHR 0xD8,
     CHR 0xA7, CHR 0xD9, CHR 0x84, CHR 0xD8, CHR 0xB1, CHR 0xD8, CHR 0xAC, CHR 0xD8,
     CHR 0xA7, CHR 0xD8, CHR 0xA1, CHR 0x20, CHR 0xD8, CHR 0xA7, CHR 0xD9, CHR 0x84,
     CHR 0xD9, CHR 0x85, CHR 0xD8, CHR 0xAD, CHR 0xD8, CHR 0xA7, CHR 0xD9, CHR 0x88,
     CHR 0xD9, CHR 0x84, CHR 0xD8, CHR 0xA9, CHR 0x20, CHR 0xD9, CHR 0x85, CHR 0xD8,
     CHR 0xB1, CHR 0xD8, CHR 0xA9, CHR 0x20, CHR 0xD8, CHR 0xA7, CHR 0xD8, CHR 0xAE,
     CHR 0xD8, CHR 0xB1, CHR 0xD9, CHR 0x89, CHR 0x2E]"

text \<open>Line 292 of \<^verbatim>\<open>src/main.js\<close>.\<close>

definition MSG_CARD_EXPIRED :: string where
  "MSG_CARD_EXPIRED =
    [CHR 0xD9, CHR 0x84, CHR 0xD9, CHR 0x82, CHR 0xD8, CHR 0xAF, CHR 0x20, CHR 0xD8,
     CHR 0xA7, CHR 0xD9, CHR 0x86, CHR 0xD8, CHR 0xAA, CHR 0xD9, CHR 0x87, CHR 0xD8,
     CHR 0xAA, CHR 0x20, CHR 0xD8, CHR 0xB5, CHR 0xD9, CHR 0x84, CHR 0xD8, CHR 0xA7,
     CHR 0xD8, CHR 0xAD, CHR 0xD9, CHR 0x8A, CHR 0xD8, CHR 0xA9, CHR 0x20, CHR 0xD9,
     CHR 0x87, CHR 0xD8, CHR 0xB0, CHR 0xD8, CHR 0xA7, CHR 0x20, CHR 0xD8, CHR 0xA7,
     CHR 0xD9, CHR 0x84, CHR 0xD9, CHR 0x83, CHR 0xD8, CHR 0xB1, CHR 0xD8, CHR 0xAA,
     CHR 0x2E]"

text \<open>Line 293 of \<^verbatim>\<open>src/main.js\<close>.\<close>

definition MSG_OTHER_DEVICE :: string where
  "MSG_OTHER_DEVICE =
    [CHR 0xD9, CHR 0x87, CHR 0xD8, CHR 0xB0, CHR 0xD8, CHR 0xA7, CHR 0x20, CHR 0xD8,
     CHR 0xA7, CHR 0xD9, CHR 0x84, CHR 0xD8, CHR 0xAD, CHR 0xD8, CHR 0xB3, CHR 0xD8,
     CHR 0xA7, CHR 0xD8, CHR 0xA8, CHR 0x20, CHR 0xD9, CHR 0x85, CHR 0xD9, CHR 0x82,
     CHR 0xD8, CHR 0xAA, CHR 0xD8, CHR 0xB1, CHR 0xD9, CHR 0x86, CHR 0x20, CHR 0xD8,
     CHR 0xA8, CHR 0xD8, CHR 0xAC, CHR 0xD9, CHR 0x87, CHR 0xD8, CHR 0xA7, CHR 0xD8,
     CHR 0xB2, CHR 0x20, CHR 0xD8, CHR 0xA2, CHR 0xD8, CHR 0xAE, CHR 0xD8, CHR 0xB1,
     CHR 0x21]"

text \<open>Line 294 of \<^verbatim>\<open>src/main.js\<close>.\<close>

definition MSG_SERVER_NOT_RESPONDING :: string where
  "MSG_SERVER_NOT_RESPONDING =
    [CHR 0xD9, CHR 0x87, CHR 0xD8, CHR 0xB0, CHR 0xD8, CHR 0xA7, CHR 0x20, CHR 0xD8,
     CHR 0xA7, CHR 0xD9, CHR 0x84, CHR 0xD8, CHR 0xAD, CHR 0xD8, CHR 0xB3, CHR 0xD8,
     CHR 0xA7, CHR 0xD8, CHR 0xA8, CHR 0x20, CHR 0xD8, CHR 0xBA, CHR 0xD9, CHR 0x8A,
     CHR 0xD8, CHR 0xB1, CHR 0x20, CHR 0xD9, CHR 0x85, CHR 0xD9, CHR 0x88, CHR 0xD8,
     CHR 0xAC, CHR 0xD9, CHR 0x88, CHR 0xD8, CHR 0xAF, CHR 0x2C, CHR 0x20, CHR 0xD9,
     CHR 0x8A, CHR 0xD8, CHR 0xB1, CHR 0xD8, CHR 0xAC, CHR 0xD9, CHR 0x89, CHR 0x20,
     CHR 0xD8, CHR 0xA7, CHR 0xD9, CHR 0x84, CHR 0xD8, CHR 0xAA, CHR 0xD8, CHR 0xA3,
     CHR 0xD9, CHR 0x83, CHR 0xD8, CHR 0xAF, CHR 0x20, CHR 0xD9, CHR 0x88, CHR 0xD8,
     CHR 0xA7, CHR 0xD9, CHR 0x84, CHR 0xD9, CHR 0x85, CHR 0xD8, CHR 0xAD, CHR 0xD8,
     CHR 0xA7, CHR 0xD9, CHR 0x88, CHR 0xD9, CHR 0x84, CHR 0xD8, CHR 0xA9, CHR 0x20,
     CHR 0xD9, CHR 0x85, CHR 0xD8, CHR 0xB1, CHR 0xD8, CHR 0xA9, CHR 0x20, CHR 0xD8,
     CHR 0xA7, CHR 0xD8, CHR 0xAE, CHR 0xD8, CHR 0xB1, CHR 0xD9, CHR 0x89, CHR 0x2E]"

text \<open>Line 295 of \<^verbatim>\<open>src/main.js\<close>.\<close>

definition MSG_RETRY_CARD :: string where
  "MSG_RETRY_CARD =
    [CHR 0xD9, CHR 0x8A, CHR 0xD8, CHR 0xB1, CHR 0xD8, CHR 0xAC, CHR 0xD9, CHR 0x89,
     CHR 0x20, CHR 0xD9, CHR 0x85, CHR 0xD8, CHR 0xAD, CHR 0xD8, CHR 0xA7, CHR 0xD9,
     CHR 0x88, CHR 0xD9, CHR 0x84, CHR 0xD8, CHR 0xA9, CHR 0x20, CHR 0xD8, CHR 0xA7,
     CHR 0xD8, CHR 0xAF, CHR 0xD8, CHR 0xAE, CHR 0xD8, CHR 0xA7, CHR 0xD9, CHR 0x84,
     CHR 0x20, CHR 0xD8, CHR 0xA7, CHR 0xD9, CHR 0x84, CHR 0xD9, CHR 0x83, CHR 0xD8,
     CHR 0xB1, CHR 0xD8, CHR 0xAA, CHR 0x20, CHR 0xD9, CHR 0x85, CHR 0xD8, CHR 0xB1,
     CHR 0xD8, CHR 0xA9, CHR 0x20, CHR 0xD8, CHR 0xA7, CHR 0xD8, CHR 0xAE, CHR 0xD8,
     CHR 0xB1, CHR 0xD9, CHR 0x89, CHR 0x2E]"

text \<open>Line 296 of \<^verbatim>\<open>src/main.js\<close>.\<close>

definition MSG_MAC_RESERVED :: string where
  "MSG_MAC_RESERVED =
    [CHR 0xD9, CHR 0x84, CHR 0xD8, CHR 0xA7, CHR 0x20, CHR 0xD9, CHR 0x8A, CHR 0xD8,
     CHR 0xAD, CHR 0xD9, CHR 0x82, CHR 0x20, CHR 0xD9, CHR 0x84, CHR 0xD9, CHR 0x83,
     CHR 0x20, CHR 0xD8, CHR 0xA7, CHR 0xD8, CHR 0xB3, CHR 0xD8, CHR 0xAA, CHR 0xD8,
     CHR 0xAE, CHR 0xD8, CHR 0xAF, CHR 0xD8, CHR 0xA7, CHR 0xD9, CHR 0x85, CHR 0x20,
     CHR 0xD9, CHR 0x87, CHR 0xD8, CHR 0xB0, CHR 0xD8, CHR 0xA7, CHR 0x20, CHR 0xD8,
     CHR 0xA7, CHR 0xD9, CHR 0x84, CHR 0xD9, CHR 0x83, CHR 0xD8, CHR 0xB1, CHR 0xD8,
     CHR 0xAA, CHR 0x2C, CHR 0x20, CHR 0xD8, CHR 0xA7, CHR 0xD9, CHR 0x84, CHR 0xD9,
     CHR 0x83, CHR 0xD8, CHR 0xB1, CHR 0xD8, CHR 0xAA, CHR 0x20, CHR 0xD9, CHR 0x85,
     CHR 0xD8, CHR 0xAD, CHR 0xD8, CHR 0xAC, CHR 0xD9, CHR 0x88, CHR 0xD8, CHR 0xB2,
     CHR 0x20, CHR 0xD9, CHR 0x84, CHR 0xD9, CHR 0x85, CHR 0xD8, CHR 0xB3, CHR 0xD8,
     CHR 0xAA, CHR 0xD8, CHR 0xAE, CHR 0xD8, CHR 0xAF, CHR 0xD9, CHR 0x85, CHR 0x20,
     CHR 0xD8, CHR 0xA7, CHR 0xD8, CHR 0xAE, CHR 0xD8, CHR 0xB1, CHR 0x21]"

text \<open>Line 323 of \<^verbatim>\<open>src/main.js\<close>.\<close>

definition ERROR_PREFIX :: string where
  "ERROR_PREFIX =
    [CHR 0xD8, CHR 0xAD, CHR 0xD8, CHR 0xB5, CHR 0xD9, CHR 0x84, CHR 0x20, CHR 0xD8,
     CHR 0xAE, CHR 0xD8, CHR 0xB7, CHR 0xD8, CHR 0xA3, CHR 0x3A, CHR 0x20]"

text \<open>Line 514 of \<^verbatim>\<open>src/main.js\<close>.\<close>

definition MSG_RETRY_LATER :: string where
  "MSG_RETRY_LATER =
    [CHR 0xD9, CHR 0x85, CHR 0xD8, CHR 0xAD, CHR 0xD8, CHR 0xA7, CHR 0xD9, CHR 0x88,
     CHR 0xD9, CHR 0x84, CHR 0xD8, CHR 0xA9, CHR 0x20, CHR 0xD8, CHR 0xAA, CHR 0xD8,
     CHR 0xB3, CHR 0xD8, CHR 0xAC, CHR 0xD9, CHR 0x8A, CHR 0xD9, CHR 0x84, CHR 0x20,
     CHR 0xD8, CHR 0xA7, CHR 0xD9, CHR 0x84, CHR 0xD8, CHR 0xAF, CHR 0xD8, CHR 0xAE,
     CHR 0xD9, CHR 0x88, CHR 0xD9, CHR 0x84, CHR 0x20, CHR 0xD9, CHR 0x85, CHR 0xD8,
     CHR 0xAA, CHR 0xD8, CHR 0xB9, CHR 0xD8, CHR 0xA7, CHR 0xD8, CHR 0xB1, CHR 0xD8,
     CHR 0xB6, CHR 0xD8, CHR 0xA9, CHR 0x2E, CHR 0x20, CHR 0xD9, CHR 0x8A, CHR 0xD8,
     CHR 0xB1, CHR 0xD8, CHR 0xAC, CHR 0xD9, CHR 0x89, CHR 0x20, CHR 0xD8, CHR 0xA7,
     CHR 0xD9, CHR 0x84, CHR 0xD8, CHR 0xA7, CHR 0xD9, CHR 0x86, CHR 0xD8, CHR 0xAA,
     CHR 0xD8, CHR 0xB8, CHR 0xD8, CHR 0xA7, CHR 0xD8, CHR 0xB1, CHR 0x20, CHR 0xD9,
     CHR 0x84, CHR 0xD8, CHR 0xAD, CHR 0xD8, CHR 0xB8, CHR 0xD8, CHR 0xA9, CHR 0x20,
     CHR 0xD9, CHR 0x88, CHR 0xD8, CHR 0xA7, CHR 0xD9, CHR 0x84, CHR 0xD9, CHR 0x85,
     CHR 0xD8, CHR 0xAD, CHR 0xD8, CHR 0xA7, CHR 0xD9, CHR 0x88, CHR 0xD9, CHR 0x84,
     CHR 0xD8, CHR 0xA9, CHR 0x20, CHR 0xD9, CHR 0x85, CHR 0xD8, CHR 0xB1, CHR 0xD8,
     CHR 0xA9, CHR 0x20, CHR 0xD8, CHR 0xA3, CHR 0xD8, CHR 0xAE, CHR 0xD8, CHR 0xB1,
     CHR 0xD9, CHR 0x89, CHR 0x2E]"

text \<open>Line 681 of \<^verbatim>\<open>src/main.js\<close>.\<close>

definition MSG_ENTER_USERNAME :: string where
  "MSG_ENTER_USERNAME =
    [CHR 0xD9, CHR 0x8A, CHR 0xD8, CHR 0xB1, CHR 0xD8, CHR 0xAC, CHR 0xD9, CHR 0x89,
     CHR 0x20, CHR 0xD8, CHR 0xA5, CHR 0xD8, CHR 0xAF, CHR 0xD8, CHR 0xAE, CHR 0xD8,
     CHR 0xA7, CHR 0xD9, CHR 0x84, CHR 0x20, CHR 0xD8, CHR 0xA7, CHR 0xD8, CHR 0xB3,
     CHR 0xD9, CHR 0x85, CHR 0x20, CHR 0xD8, CHR 0xA7, CHR 0xD9, CHR 0x84, CHR 0xD9,
     CHR 0x85, CHR 0xD8, CHR 0xB3, CHR 0xD8, CHR 0xAA, CHR 0xD8, CHR 0xAE, CHR 0xD8,
     CHR 0xAF, CHR 0xD9, CHR 0x85, CHR 0x20, CHR 0xD8, CHR 0xA3, CHR 0xD9, CHR 0x88,
     CHR 0x20, CHR 0xD8, CHR 0xB1, CHR 0xD9, CHR 0x82, CHR 0xD9, CHR 0x85, CHR 0x20,
     CHR 0xD8, CHR 0xA7, CHR 0xD9, CHR 0x84, CHR 0xD8, CHR 0xAA, CHR 0xD8, CHR 0xB0,
     CHR 0xD9, CHR 0x83, CHR 0xD8, CHR 0xB1, CHR 0xD8, CHR 0xA9, CHR 0x2E]"

text \<open>Line 504 of \<^verbatim>\<open>src/main.js\<close>.\<close>

definition WORD_PASSWORD :: string where
  "WORD_PASSWORD =
    [CHR 0xD9, CHR 0x83, CHR 0xD9, CHR 0x84, CHR 0xD9, CHR 0x85, CHR 0xD8, CHR 0xA9,
     CHR 0x20, CHR 0xD8, CHR 0xA7, CHR 0xD9, CHR 0x84, CHR 0xD9, CHR 0x85, CHR 0xD8,
     CHR 0xB1, CHR 0xD9, CHR 0x88, CHR 0xD8, CHR 0xB1]"

text \<open>Line 573 of \<^verbatim>\<open>src/main.js\<close>.\<close>

definition TITLE_DEFAULT_AR :: string where
  "TITLE_DEFAULT_AR =
    [CHR 0xD8, CHR 0xAD, CHR 0xD8, CHR 0xA7, CHR 0xD9, CHR 0x84, CHR 0xD8, CHR 0xA9,
     CHR 0x20, CHR 0xD8, CHR 0xA7, CHR 0xD9, CHR 0x84, CHR 0xD8, CHR 0xA7, CHR 0xD8,
     CHR 0xAA, CHR 0xD8, CHR 0xB5, CHR 0xD8, CHR 0xA7, CHR 0xD9, CHR 0x84]"

text \<open>Line 638 of \<^verbatim>\<open>src/main.js\<close>.\<close>

definition TITLE_FREE_CARD :: string where
  "TITLE_FREE_CARD =
    [CHR 0xD9, CHR 0x83, CHR 0xD8, CHR 0xB1, CHR 0xD8, CHR 0xAA, CHR 0x20, CHR 0xD9,
     CHR 0x85, CHR 0xD8, CHR 0xAC, CHR 0xD8, CHR 0xA7, CHR 0xD9, CHR 0x86, CHR 0xD9,
     CHR 0x8A, CHR 0x20, CHR 0xD9, CHR 0x85, CHR 0xD9, CHR 0x86, CHR 0x20, CHR 0xD8,
     CHR 0xAE, CHR 0xD8, CHR 0xAF, CHR 0xD9, CHR 0x85, CHR 0xD8, CHR 0xA9, CHR 0x20,
     CHR 0xD8, CHR 0xA7, CHR 0xD8, CHR 0xAC, CHR 0xD9, CHR 0x85, CHR 0xD8, CHR 0xB9,
     CHR 0x20, CHR 0xD9, CHR 0x88, CHR 0xD8, CHR 0xA7, CHR 0xD8, CHR 0xB1, CHR 0xD8,
     CHR 0xA8, CHR 0xD8, CHR 0xAD, CHR 0x21]"

text \<open>Line 640 of \<^verbatim>\<open>src/main.js\<close>.\<close>

definition TITLE_FREE_INTERNET :: string where
  "TITLE_FREE_INTERNET =
    [CHR 0xD8, CHR 0xA3, CHR 0xD9, CHR 0x86, CHR 0xD8, CHR 0xAA, CHR 0x20, CHR 0xD8,
     CHR 0xA7, CHR 0xD9, CHR 0x84, CHR 0xD8, CHR 0xA7, CHR 0xD9, CHR 0x86, CHR 0x20,
     CHR 0xD8, CHR 0xAA, CHR 0xD8, CHR 0xB3, CHR 0xD8, CHR 0xAA, CHR 0xD8, CHR 0xAE,
     CHR 0xD8, CHR 0xAF, CHR 0xD9, CHR 0x85, CHR 0x20, CHR 0xD8, CHR 0xA7, CHR 0xD9,
     CHR 0x84, CHR 0xD8, CHR 0xA7, CHR 0xD9, CHR 0x86, CHR 0xD8, CHR 0xAA, CHR 0xD8,
     CHR 0xB1, CHR 0xD9, CHR 0x86, CHR 0xD8, CHR 0xAA, CHR 0x20, CHR 0xD8, CHR 0xA7,
     CHR 0xD9, CHR 0x84, CHR 0xD9, CHR 0x85, CHR 0xD8, CHR 0xAC, CHR 0xD8, CHR 0xA7,
     CHR 0xD9, CHR 0x86, CHR 0xD9, CHR 0x8A]"

section \<open>Data formatting helpers\<close>

text \<open>
  \<^verbatim>\<open>toArabicTime\<close> (lines 235-250). \<open>firstTwo\<close> is the destructuring
  \<^verbatim>\<open>[a, b] = pieces\<close>; a separator that occurs in the string gives at least two pieces.
\<close>

fun firstTwo :: "string list \<Rightarrow> string \<times> string" where
  "firstTwo (a # b # ps) = (a, b)"
| "firstTwo [a] = (a, [])"
| "firstTwo [] = ([], [])"

definition toArabicTime :: "string \<Rightarrow> string" where
  "toArabicTime timeStr =
     (if timeStr = [] then []
      else
        let remaining = timeStr;
            (days, remaining) =
              (if includes_str remaining ''d'' then firstTwo (split remaining ''d'')
               else ([], remaining));
            (hours, remaining) =
              (if includes_str remaining ''h'' then firstTwo (split remaining ''h'')
               else ([], remaining));
            (minutes, remaining) =
              (if includes_str remaining ''m'' then firstTwo (split remaining ''m'')
               else ([], remaining));
            seconds =
              (if includes_str remaining ''s'' then fst (firstTwo (split remaining ''s''))
               else []);
            result = [];
            result = (if trim days \<noteq> [] then result @ days @ '' '' @ WORD_DAY @ '' '' else result);
            result = (if trim hours \<noteq> [] then result @ hours @ '' '' @ WORD_HOUR @ '' '' else result);
            result = (if trim minutes \<noteq> [] then result @ minutes @ '' '' @ WORD_MINUTE @ '' '' else result);
            result = (if trim seconds \<noteq> [] then result @ seconds @ '' '' @ WORD_SECOND else result)
        in if trim result = [] then timeStr else trim result)"

text \<open>
  \<^verbatim>\<open>toArabicBytes\<close> (lines 252-259): the value itself when \<^verbatim>\<open>Number\<close> makes
  \<^verbatim>\<open>NaN\<close> of it, a text otherwise.
\<close>

definition toArabicBytes :: "(string \<Rightarrow> int option) \<Rightarrow> jsval \<Rightarrow> jsval" where
  "toArabicBytes N bytes =
     (case Number N bytes of
        None \<Rightarrow> bytes
      | Some numBytes \<Rightarrow>
          if numBytes < 1024 then JStr (showInt numBytes @ '' '' @ UNIT_BYTE)
          else if numBytes < 1048576 then
            JStr (showInt (Math_round (of_int numBytes / 1024)) @ '' '' @ UNIT_KILOBYTE)
          else if numBytes < 1073741824 then
            JStr (showInt (Math_round (of_int numBytes / 1048576)) @ '' '' @ UNIT_MEGABYTE)
          else JStr (toFixed2 (of_int numBytes / 1073741824) @ '' '' @ UNIT_GIGABYTE))"

text \<open>
  The rule of the specification for the unit of a byte count: the largest of the four
  binary units that does not exceed the count.
\<close>

definition spec_units :: "int list" where
  "spec_units = [1, 1024, 1048576, 1073741824]"

definition spec_largestUnit :: "int \<Rightarrow> int" where
  "spec_largestUnit n = Max (set (filter (\<lambda>u. u \<le> n) spec_units))"

definition spec_unitLabel :: "int \<Rightarrow> string" where
  "spec_unitLabel u =
     (if u = 1 then UNIT_BYTE
      else if u = 1024 then UNIT_KILOBYTE
      else if u = 1048576 then UNIT_MEGABYTE
      else UNIT_GIGABYTE)"

text \<open>
  \<^verbatim>\<open>hideHalfCard\<close> (lines 261-274), on a string (the caller passes
  \<^verbatim>\<open>String(value)\<close>): \<^verbatim>\<open>!username\<close> holds of the empty string only.
\<close>

definition hideHalfCard :: "string \<Rightarrow> string" where
  "hideHalfCard username0 =
     (if username0 = [] then LABEL_SUBSCRIPTION
      else
        let username = toLowerCase username0 in
        if includes_str username ''t-'' then LABEL_FREE_TRIAL
        else
          let len = length username in
          if len < 2 then username
          else
            let half = nat (Math_ceil (of_nat len / 2));
                firstPart = take (len - half) username
            in firstPart @ replicate half (CHR ''*''))"

text \<open>
  \<^verbatim>\<open>toArabicError\<close> (lines 276-324). \<open>errorMap\<close> lists the entries of the object
  literal in the order they are written, which is the order \<^verbatim>\<open>for (key in errorMap)\<close>
  visits them. The two special keys hold the character U+00AC.
\<close>

definition KEY_SERVER :: string where
  "KEY_SERVER = ''server&is'' @ [CHR 0xC2, CHR 0xAC] @ ''&responding''"

definition KEY_WEB :: string where
  "KEY_WEB = ''web&browser&did'' @ [CHR 0xC2, CHR 0xAC] @ ''&send''"

definition errorMap :: "(string \<times> string) list" where
  "errorMap =
    [(''user not found'', MSG_USER_NOT_FOUND),
     (''simultaneous session limit reached'', MSG_CARD_IN_USE),
     (''no more sessions are allowed'', MSG_CARD_IN_USE),
     (''invalid password'', MSG_INVALID_PASSWORD),
     (''uptime limit reached'', MSG_TIME_EXPIRED),
     (''no more online time'', MSG_TIME_EXPIRED),
     (''uptime limit'', MSG_TIME_EXPIRED),
     (''traffic limit reached'', MSG_BALANCE_EXPIRED),
     (''transfer limit reached'', MSG_BALANCE_EXPIRED),
     (''invalid username or password'', MSG_BAD_CREDENTIALS),
     (''not found'', MSG_BAD_CREDENTIALS),
     (''no valid profile found'', MSG_CARD_EXPIRED),
     (''invalid calling-station-id'', MSG_OTHER_DEVICE),
     (KEY_SERVER, MSG_SERVER_NOT_RESPONDING),
     (KEY_WEB, MSG_RETRY_CARD),
     (''allowed to log in from this mac'', MSG_MAC_RESERVED)]"

text \<open>\<^verbatim>\<open>errorMap[key]\<close> for a key of the table.\<close>

definition errorMapAt :: "string \<Rightarrow> string" where
  "errorMapAt key = (case map_of errorMap key of Some msg \<Rightarrow> msg | None \<Rightarrow> [])"

text \<open>The loop of lines 309-320 over the entries still to visit.\<close>

fun lookupError :: "(string \<times> string) list \<Rightarrow> string \<Rightarrow> string option" where
  "lookupError [] lowerError = None"
| "lookupError ((key, msg) # rest) lowerError =
     (if includes_str key ''&'' then lookupError rest lowerError
      else if includes_str key ''|'' then
        (if list_ex (\<lambda>part. includes_str lowerError (trim part)) (split key ''|'')
         then Some msg else lookupError rest lowerError)
      else if includes_str lowerError key then Some msg
      else lookupError rest lowerError)"

text \<open>The two checks of lines 301 and 304, made before the loop.\<close>

definition serverCheck :: "string \<Rightarrow> bool" where
  "serverCheck lowerError =
     (includes_str lowerError ''server'' \<and> includes_str lowerError ''is''
      \<and> includes_str lowerError ''responding'')"

definition browserCheck :: "string \<Rightarrow> bool" where
  "browserCheck lowerError =
     (includes_str lowerError ''web'' \<and> includes_str lowerError ''browser''
      \<and> includes_str lowerError ''did'' \<and> includes_str lowerError ''send'')"

definition toArabicError :: "string \<Rightarrow> string" where
  "toArabicError errorMsg =
     (if errorMsg = [] then MSG_UNKNOWN_ERROR
      else
        let lowerError = toLowerCase errorMsg in
        if serverCheck lowerError then errorMapAt KEY_SERVER
        else if browserCheck lowerError then errorMapAt KEY_WEB
        else
          (case lookupError errorMap lowerError of
             Some msg \<Rightarrow> msg
           | None \<Rightarrow> ERROR_PREFIX @ errorMsg))"

text \<open>The entries the loop does not skip: those whose key holds no \<^verbatim>\<open>&\<close>.\<close>

definition simpleEntries :: "(string \<times> string) list" where
  "simpleEntries = filter (\<lambda>(key, msg). \<not> includes_str key ''&'') errorMap"


section \<open>The state of the page\<close>

text \<open>
  The script keeps four variables (lines 12-15) and otherwise lives in the browser: the
  requests it has sent and that are still in flight, the interval timers it has set, and
  the elements of the page it writes to. All of it is one record, passed through every
  function. The page is taken to hold the sections, the form and the error elements the
  script looks up; the elements of \<^verbatim>\<open>statusFields\<close> may be absent, as the script
  tests each before use. The one-shot timers whose callback writes a variable of the
  script or calls one of its functions are kept as pending timeouts. Console output,
  focus, CSS classes, the timers that only move the focus or finish the fading of the
  error popup, the calls to the helper scripts (cookies, blocker) and the buttons of the
  optional sections are left out: the claims below are about the variables of the script,
  the requests, the poll timer, the status elements and the error display.
\<close>

datatype content = Text string | Html string

record element =
  elemId :: string
  tagName :: string
  content :: content
  display :: string

text \<open>The two error callbacks passed to \<^verbatim>\<open>getRequest\<close>: lines 707-715 and 728-736.\<close>

datatype callback = LoginFailed | LogoutFailed

record request =
  url :: string
  callbackError :: "callback option"

datatype panel = NoPanel | LoginPanel | StatusPanel

text \<open>
  The callbacks handed to \<^verbatim>\<open>setTimeout\<close>: the end of the status animation (lines
  131-141, after 500 ms), the fallback of the logout (lines 742-745, after 1000 ms) and
  the delayed call of \<^verbatim>\<open>doUserLogout\<close> (lines 813-815, after 100 ms).
\<close>

datatype timer = AnimationEnd | LogoutFallback | LogoutCall bool

record state =
  isAnimating :: bool
  isLoggedIn :: bool
  statusPollInterval :: "nat option"
  hotspotApiData :: "envelope option"
  protocol :: string
  intervals :: "nat \<rightharpoonup> nat"
  nextIntervalId :: nat
  inFlight :: "request list"
  shown :: panel
  errorText :: string
  errorShown :: bool
  statusFields :: "string \<rightharpoonup> element"
  timeouts :: "timer list"

definition STATUS_POLL_INTERVAL :: nat where
  "STATUS_POLL_INTERVAL = 1500"

definition API_LOGIN_STATUS :: string where
  "API_LOGIN_STATUS = ''/login?var=callBack''"

definition API_DO_LOGIN :: string where
  "API_DO_LOGIN = ''/login?var=callBack''"

definition API_STATUS :: string where
  "API_STATUS = ''/status?var=callBack''"

definition API_LOGOUT :: string where
  "API_LOGOUT = ''/logout?var=callBack''"

definition API_LOGOUT_ERASE :: string where
  "API_LOGOUT_ERASE = ''/logout?erase-cookie=yes&var=callBack''"

text \<open>The keys of \<^verbatim>\<open>statusFields\<close> in the order of the object literal (lines 62-75).\<close>

definition statusFieldKeys :: "string list" where
  "statusFieldKeys =
    [''username'', ''ip'', ''uptime'', ''session_time_left'', ''bytes_out'', ''bytes_in'',
     ''remain_bytes_total'', ''session_time_left_item'', ''remain_bytes_total_item'',
     ''status_title'', ''status_mac'']"

subsection \<open>Sections and the error display\<close>

definition hideAllSections :: "state \<Rightarrow> state" where
  "hideAllSections s = s\<lparr>shown := NoPanel\<rparr>"

definition showLoginSection :: "state \<Rightarrow> state" where
  "showLoginSection s = (hideAllSections s)\<lparr>shown := LoginPanel\<rparr>"

definition showStatusSection :: "state \<Rightarrow> state" where
  "showStatusSection s =
     (let s = (hideAllSections s)\<lparr>shown := StatusPanel\<rparr>
      in s\<lparr>timeouts := timeouts s @ [AnimationEnd]\<rparr>)"

definition clearErrors :: "state \<Rightarrow> state" where
  "clearErrors s = s\<lparr>errorText := [], errorShown := False\<rparr>"

definition displayJsError :: "string \<Rightarrow> state \<Rightarrow> state" where
  "displayJsError message s = s\<lparr>errorText := message, errorShown := True\<rparr>"

subsection \<open>Polling and the logout transition\<close>

text \<open>\<^verbatim>\<open>stopStatusPolling\<close> (lines 780-786).\<close>

definition stopStatusPolling :: "state \<Rightarrow> state" where
  "stopStatusPolling s =
     (case statusPollInterval s of
        None \<Rightarrow> s
      | Some h \<Rightarrow> s\<lparr>intervals := (intervals s)(h := None), statusPollInterval := None\<rparr>)"

text \<open>The body of the loop of lines 564-570 on one element.\<close>

definition clearField :: "element \<Rightarrow> element" where
  "clearField field =
     (if tagName field \<noteq> ''DIV'' \<and> tagName field \<noteq> ''SPAN'' \<and> elemId field \<noteq> ''status-title''
      then field\<lparr>content := Text ''N/A''\<rparr>
      else if elemId field = ''status-time-left-item'' \<or> elemId field = ''status-remain-item''
      then field\<lparr>display := ''none''\<rparr>
      else field)"

definition titleHtml :: "string \<Rightarrow> string \<Rightarrow> string" where
  "titleHtml en ar =
     ''<span class='' @ [CHR 0x22] @ ''en'' @ [CHR 0x22] @ ''>'' @ en @ ''</span>''
     @ ''<span class='' @ [CHR 0x22] @ ''ar'' @ [CHR 0x22] @ ''>'' @ ar @ ''</span>''"

text \<open>
  \<^verbatim>\<open>handleLoggedOut\<close> (lines 551-576); \<open>clearStatusFields\<close> is its loop over the
  status elements and the reset of the title (lines 564-575).
\<close>

definition clearStatusFields :: "(string \<rightharpoonup> element) \<Rightarrow> (string \<rightharpoonup> element)" where
  "clearStatusFields fs =
     (let fs = (\<lambda>key. if key \<in> set statusFieldKeys then map_option clearField (fs key)
                      else fs key)
      in case fs ''status_title'' of
           None \<Rightarrow> fs
         | Some title \<Rightarrow>
             fs(''status_title'' \<mapsto>
                  title\<lparr>content := Html (titleHtml ''Connection Status'' TITLE_DEFAULT_AR)\<rparr>))"

definition handleLoggedOut :: "state \<Rightarrow> state" where
  "handleLoggedOut s =
     (let s = s\<lparr>isLoggedIn := False\<rparr>;
          s = stopStatusPolling s;
          s = clearErrors s;
          s = showLoginSection s
      in s\<lparr>statusFields := clearStatusFields (statusFields s)\<rparr>)"

text \<open>
  \<^verbatim>\<open>getRequest\<close> up to \<^verbatim>\<open>xhr.send()\<close> (lines 331-343, 437): under the
  \<^verbatim>\<open>file:\<close> protocol nothing is sent; otherwise the request is in flight, and its
  three event handlers (below) run when the browser reports its outcome.
\<close>

definition getRequest :: "string \<Rightarrow> callback option \<Rightarrow> state \<Rightarrow> state" where
  "getRequest u cb s =
     (if protocol s = ''file:'' then showLoginSection (handleLoggedOut s)
      else s\<lparr>inFlight := inFlight s @ [\<lparr>url = u, callbackError = cb\<rparr>]\<rparr>)"

text \<open>The request of a status poll: \<^verbatim>\<open>getRequest(API_ENDPOINT.STATUS)\<close>, with no callback.\<close>

definition pollRequest :: request where
  "pollRequest = \<lparr>url = API_STATUS, callbackError = None\<rparr>"

text \<open>
  \<^verbatim>\<open>startStatusPolling\<close> (lines 753-777). \<^verbatim>\<open>setInterval\<close> hands out a fresh
  handle and registers the period; the callback it registers is \<open>pollTick\<close>.
\<close>

definition startStatusPolling :: "state \<Rightarrow> state" where
  "startStatusPolling s =
     (if statusPollInterval s \<noteq> None then s
      else if \<not> isLoggedIn s then s
      else
        let s = getRequest API_STATUS None s;
            h = nextIntervalId s
        in s\<lparr>intervals := (intervals s)(h \<mapsto> STATUS_POLL_INTERVAL),
             nextIntervalId := h + 1,
             statusPollInterval := Some h\<rparr>)"

text \<open>The interval callback (lines 768-776), run by the browser for a timer that is still set.\<close>

definition pollTick :: "nat \<Rightarrow> state \<Rightarrow> state" where
  "pollTick h s =
     (if intervals s h = None then s
      else if isLoggedIn s then getRequest API_STATUS None s
      else stopStatusPolling s)"

subsection \<open>Status update and the login transition\<close>

text \<open>The text written into the element of \<open>key\<close> for the value of the envelope (lines 614-629).\<close>

definition formatField :: "(string \<Rightarrow> int option) \<Rightarrow> string \<Rightarrow> jsval \<Rightarrow> string" where
  "formatField N key v =
     (if v = JNull \<or> v = JStr [] then ''N/A''
      else if key = ''username'' then hideHalfCard (String_of v)
      else if includes_str key ''bytes'' then String_of (toArabicBytes N v)
      else if includes_str key ''time'' \<or> key = ''uptime'' then toArabicTime (String_of v)
      else String_of v)"

definition setItemDisplay :: "string \<Rightarrow> string \<Rightarrow> (string \<rightharpoonup> element) \<Rightarrow> (string \<rightharpoonup> element)" where
  "setItemDisplay key d fs =
     (case fs key of
        None \<Rightarrow> fs
      | Some item \<Rightarrow> fs(key \<mapsto> item\<lparr>display := d\<rparr>))"

text \<open>
  One round of the loop of lines 599-631. \<^verbatim>\<open>data.hasOwnProperty(key)\<close> is read as
  the envelope having the field: the envelope itself carries no field named
  \<^verbatim>\<open>hasOwnProperty\<close>, which would shadow the method.
\<close>

definition updateField ::
  "(string \<Rightarrow> int option) \<Rightarrow> envelope \<Rightarrow> string \<Rightarrow> (string \<rightharpoonup> element) \<Rightarrow> (string \<rightharpoonup> element)" where
  "updateField N data key fs =
     (case (fs key, data key) of
        (Some el, Some v) \<Rightarrow>
          let remaining = (key = ''session_time_left'' \<or> key = ''remain_bytes_total'');
              fs =
                (if remaining
                 then setItemDisplay (key @ ''_item'')
                        (if truthy v \<and> v \<noteq> JStr ''0'' \<and> v \<noteq> JStr ''0s'' then ''flex'' else ''none'')
                        fs
                 else fs);
              fs = fs(key \<mapsto> el\<lparr>content := Text (formatField N key v)\<rparr>)
          in if (v = JNull \<or> v = JStr []) \<and> remaining
             then setItemDisplay (key @ ''_item'') ''none'' fs
             else fs
      | _ \<Rightarrow> fs)"

text \<open>
  The status title (lines 633-650). A \<^verbatim>\<open>username\<close> or \<^verbatim>\<open>mac\<close> that is not a
  string raises a \<^verbatim>\<open>TypeError\<close> at \<^verbatim>\<open>split\<close> or \<^verbatim>\<open>includes\<close>, which the
  \<^verbatim>\<open>try\<close> swallows: the title stays.
\<close>

definition updateStatusTitle :: "envelope \<Rightarrow> state \<Rightarrow> state" where
  "updateStatusTitle data s =
     (if truthyField data ''username'' \<and> truthyField data ''mac'' then
        (case (data ''username'', data ''mac'') of
           (Some (JStr username), Some (JStr mac)) \<Rightarrow>
             let macFormatted = join '':'' (split mac ''%3A'');
                 titleText =
                   (if includes_str username macFormatted then Some TITLE_FREE_CARD
                    else if includes_str (toLowerCase username) ''t-'' then Some TITLE_FREE_INTERNET
                    else None)
             in (case (titleText, statusFields s ''status_title'') of
                   (Some t, Some title) \<Rightarrow>
                     s\<lparr>statusFields := (statusFields s)
                          (''status_title'' \<mapsto> title\<lparr>content := Html (titleHtml t t)\<rparr>)\<rparr>
                 | _ \<Rightarrow> s)
         | _ \<Rightarrow> s)
      else s)"

text \<open>
  \<^verbatim>\<open>handleLoggedIn\<close> (lines 522-548) and \<^verbatim>\<open>handleStatusQuery\<close> (lines 579-652)
  call each other: the status handler re-runs the login handler when it finds a session
  it did not know of, and the login handler applies the envelope through the status
  handler, which by then sees \<^verbatim>\<open>isLoggedIn\<close> set.
\<close>

function handleLoggedIn :: "(string \<Rightarrow> int option) \<Rightarrow> envelope \<Rightarrow> state \<Rightarrow> state"
  and handleStatusQuery :: "(string \<Rightarrow> int option) \<Rightarrow> envelope \<Rightarrow> state \<Rightarrow> state" where
  "handleLoggedIn N data s =
     (let s = s\<lparr>isLoggedIn := True\<rparr>;
          s = clearErrors s;
          s = handleStatusQuery N data s;
          s = showStatusSection s
      in startStatusPolling s)"
| "handleStatusQuery N data s =
     (if \<not> isLoggedIn s \<and> truthyField data ''logged_in''
      then handleLoggedIn N data (s\<lparr>isLoggedIn := True\<rparr>)
      else if isLoggedIn s \<and> \<not> truthyField data ''logged_in''
      then showLoginSection (handleLoggedOut s)
      else if isLoggedIn s
      then updateStatusTitle data
             (s\<lparr>statusFields := fold (updateField N data) statusFieldKeys (statusFields s)\<rparr>)
      else s)"
  by pat_completeness auto
termination
  by (relation "measure (\<lambda>x. case x of
                  Inl (N, data, s) \<Rightarrow> 1
                | Inr (N, data, s) \<Rightarrow> (if isLoggedIn s then 0 else 2))")
     (auto simp: clearErrors_def)

declare handleLoggedIn.simps [simp del]

declare handleStatusQuery.simps [simp del]

subsection \<open>The other action handlers\<close>

text \<open>\<^verbatim>\<open>handleLoginStart\<close> (lines 445-472).\<close>

definition handleLoginStart :: "(string \<Rightarrow> int option) \<Rightarrow> envelope \<Rightarrow> state \<Rightarrow> state" where
  "handleLoginStart N data s =
     (let s = s\<lparr>hotspotApiData := Some data\<rparr>;
          s = s\<lparr>isLoggedIn := (data ''logged_in'' = Some (JBool True))\<rparr>
      in if isLoggedIn s then handleLoggedIn N data s
         else showLoginSection (handleLoggedOut s))"

text \<open>
  A handler returns, or raises a \<^verbatim>\<open>TypeError\<close> with the state it had reached.
  \<^verbatim>\<open>handleLoginError\<close> (lines 475-519) raises at \<^verbatim>\<open>data.error.toLowerCase()\<close>
  when the error field is truthy and not a string.
\<close>

datatype completion = Returned state | Thrown state

definition handleLoginError :: "envelope \<Rightarrow> state \<Rightarrow> completion" where
  "handleLoginError data s =
     (let s = s\<lparr>isLoggedIn := False\<rparr>;
          s = s\<lparr>isAnimating := False\<rparr>
      in if truthyField data ''error'' then
           (case data ''error'' of
              Some (JStr err) \<Rightarrow>
                if \<not> includes_str (toLowerCase err) ''already authorizing, retry later''
                then Returned (displayJsError (toArabicError err) s)
                else Returned (displayJsError MSG_RETRY_LATER s)
            | _ \<Rightarrow> Thrown s)
         else Returned s)"

text \<open>
  The table \<^verbatim>\<open>apiActionHandlers\<close> (lines 655-662). It is an object literal, so a
  lookup finds the five keys it is written with and, behind them, the methods every
  object inherits from \<^verbatim>\<open>Object.prototype\<close>; each of these is a function, and
  passes the test of line 354.
\<close>

datatype action =
  OnLoginStart | OnLoginError | OnLoggedIn | OnLoggedOut | OnStatusQuery | Inherited string

definition objectPrototypeMethods :: "string list" where
  "objectPrototypeMethods =
     [''constructor'', ''__defineGetter__'', ''__defineSetter__'', ''hasOwnProperty'',
      ''__lookupGetter__'', ''__lookupSetter__'', ''isPrototypeOf'', ''propertyIsEnumerable'',
      ''toString'', ''valueOf'', ''toLocaleString'']"

definition apiActionHandlers :: "string \<rightharpoonup> action" where
  "apiActionHandlers name =
     (case map_of [(''onLoginStart'', OnLoginStart), (''onLoginError'', OnLoginError),
                   (''onLoggedIn'', OnLoggedIn), (''onLoggedOut'', OnLoggedOut),
                   (''onStatusQuery'', OnStatusQuery)] name of
        Some handler \<Rightarrow> Some handler
      | None \<Rightarrow> if name \<in> set objectPrototypeMethods then Some (Inherited name) else None)"

text \<open>
  An inherited method called with the envelope as its argument writes nothing of the
  script. \<^verbatim>\<open>__defineGetter__\<close> and \<^verbatim>\<open>__defineSetter__\<close> raise a
  \<^verbatim>\<open>TypeError\<close>, as their second argument is no function; the four methods that
  take a property key convert the envelope to a string, which raises a \<^verbatim>\<open>TypeError\<close>
  when the envelope has a field \<^verbatim>\<open>toString\<close> of its own (no value of JSON is a
  function).
\<close>

definition callInherited :: "string \<Rightarrow> envelope \<Rightarrow> state \<Rightarrow> completion" where
  "callInherited name data s =
     (if name \<in> set [''__defineGetter__'', ''__defineSetter__''] then Thrown s
      else if name \<in> set [''hasOwnProperty'', ''propertyIsEnumerable'',
                           ''__lookupGetter__'', ''__lookupSetter__'']
              \<and> data ''toString'' \<noteq> None
      then Thrown s
      else Returned s)"

fun callHandler :: "(string \<Rightarrow> int option) \<Rightarrow> action \<Rightarrow> envelope \<Rightarrow> state \<Rightarrow> completion" where
  "callHandler N OnLoginStart data s = Returned (handleLoginStart N data s)"
| "callHandler N OnLoginError data s = handleLoginError data s"
| "callHandler N OnLoggedIn data s = Returned (handleLoggedIn N data s)"
| "callHandler N OnLoggedOut data s = Returned (handleLoggedOut s)"
| "callHandler N OnStatusQuery data s = Returned (handleStatusQuery N data s)"
| "callHandler N (Inherited name) data s = callInherited name data s"

subsection \<open>The outcome of a request\<close>

text \<open>
  What \<^verbatim>\<open>JSON.parse(xhr.responseText)\<close> makes of a body: a syntax error, a value
  that is no object (where \<^verbatim>\<open>responseData.action\<close> is not set), or an object.
\<close>

datatype body = SyntaxError | NonObject | Object envelope

text \<open>The error callbacks of \<^verbatim>\<open>doUserLogin\<close> (lines 707-715) and \<^verbatim>\<open>doUserLogout\<close> (lines 728-736).\<close>

fun runCallback :: "callback \<Rightarrow> string \<Rightarrow> state \<Rightarrow> state" where
  "runCallback LoginFailed errorMsg s =
     (let s = s\<lparr>isAnimating := False\<rparr>;
          s = (if errorText s = []
               then displayJsError (if errorMsg = [] then ''Login failed. Please try again.'' else errorMsg) s
               else s)
      in showLoginSection s)"
| "runCallback LogoutFailed errorMsg s =
     (let s = s\<lparr>isAnimating := False\<rparr>;
          s = displayJsError ''Logout failed. Please check connection or try again.'' s;
          s = handleLoggedOut s
      in showLoginSection s)"

definition validAction :: "envelope \<Rightarrow> action option" where
  "validAction responseData =
     (if truthyField responseData ''action''
      then (case responseData ''action'' of
              Some a \<Rightarrow> apiActionHandlers (String_of a)
            | None \<Rightarrow> None)
      else None)"

text \<open>The \<^verbatim>\<open>else\<close> branch of lines 357-367 and the \<^verbatim>\<open>catch\<close> branch of lines 368-380.\<close>

definition invalidResponse :: "request \<Rightarrow> state \<Rightarrow> state" where
  "invalidResponse req s =
     (let s = (case callbackError req of
                 Some cb \<Rightarrow> runCallback cb ''Invalid response from server'' s
               | None \<Rightarrow> s)
      in if includes_str (url req) ''/status'' then showLoginSection (handleLoggedOut s) else s)"

definition parseFailed :: "request \<Rightarrow> state \<Rightarrow> state" where
  "parseFailed req s =
     (if includes_str (url req) ''/status'' then showLoginSection (handleLoggedOut s)
      else case callbackError req of
             Some cb \<Rightarrow> runCallback cb ''Error reading server response.'' s
           | None \<Rightarrow> displayJsError ''Error reading server response.'' s)"

text \<open>\<^verbatim>\<open>xhr.onreadystatechange\<close> (lines 345-399).\<close>

definition onreadystatechange ::
  "(string \<Rightarrow> int option) \<Rightarrow> request \<Rightarrow> nat \<Rightarrow> nat \<Rightarrow> body \<Rightarrow> state \<Rightarrow> state" where
  "onreadystatechange N req readyState status responseText s =
     (if readyState = 4 then
        let s = s\<lparr>isAnimating := False\<rparr> in
        if status = 200 then
          (case responseText of
             SyntaxError \<Rightarrow> parseFailed req s
           | NonObject \<Rightarrow> invalidResponse req s
           | Object responseData \<Rightarrow>
               (case validAction responseData of
                  Some a \<Rightarrow>
                    (case callHandler N a responseData s of
                       Returned s \<Rightarrow> s
                     | Thrown s \<Rightarrow> parseFailed req s)
                | None \<Rightarrow> invalidResponse req s))
        else
          let errorMsg = ''Server error ('' @ decimal status @ ''). Please try again later.'' in
          (case callbackError req of
             Some cb \<Rightarrow> runCallback cb errorMsg s
           | None \<Rightarrow>
               if includes_str (url req) ''/status'' then showLoginSection (handleLoggedOut s)
               else displayJsError errorMsg s)
      else s)"

text \<open>\<^verbatim>\<open>xhr.onerror\<close> (lines 401-416).\<close>

definition onerror :: "request \<Rightarrow> state \<Rightarrow> state" where
  "onerror req s =
     (let s = s\<lparr>isAnimating := False\<rparr>;
          errorMsg = ''Network error. Please check your connection.''
      in case callbackError req of
           Some cb \<Rightarrow> runCallback cb errorMsg s
         | None \<Rightarrow>
             if includes_str (url req) ''/status'' then s
             else displayJsError errorMsg s)"

text \<open>\<^verbatim>\<open>xhr.ontimeout\<close> (lines 418-435).\<close>

definition ontimeout :: "request \<Rightarrow> state \<Rightarrow> state" where
  "ontimeout req s =
     (let s = s\<lparr>isAnimating := False\<rparr>;
          errorMsg = ''The server is not responding. Please try again later.''
      in case callbackError req of
           Some cb \<Rightarrow> runCallback cb errorMsg s
         | None \<Rightarrow>
             if includes_str (url req) ''/status'' then showLoginSection (handleLoggedOut s)
             else displayJsError errorMsg s)"

text \<open>
  The outcomes of the transport: a response with its status and body, a network error, a
  timeout. The request is then no longer in flight, and the browser runs the handlers
  the script has registered for it. A response is reported by
  \<^verbatim>\<open>readystatechange\<close> with \<^verbatim>\<open>readyState\<close> 4. A request that fails on the
  network or times out is reported the same way first, with status 0 and an empty
  \<^verbatim>\<open>responseText\<close> (which is no JSON), and only then by \<^verbatim>\<open>error\<close> or by
  \<^verbatim>\<open>timeout\<close>: both handlers of the script run, in this order.
\<close>

datatype outcome = Response nat body | NetworkError | Timeout

definition deliver :: "(string \<Rightarrow> int option) \<Rightarrow> request \<Rightarrow> outcome \<Rightarrow> state \<Rightarrow> state" where
  "deliver N req out s =
     (let s = s\<lparr>inFlight := remove1 req (inFlight s)\<rparr>
      in case out of
           Response status responseText \<Rightarrow> onreadystatechange N req 4 status responseText s
         | NetworkError \<Rightarrow> onerror req (onreadystatechange N req 4 0 SyntaxError s)
         | Timeout \<Rightarrow> ontimeout req (onreadystatechange N req 4 0 SyntaxError s))"

subsection \<open>Login and logout\<close>

text \<open>\<^verbatim>\<open>encodeURIComponent\<close>: the unreserved characters stay, every other byte is escaped.\<close>

definition unreserved :: "char \<Rightarrow> bool" where
  "unreserved c =
     (c \<in> set (''ABCDEFGHIJKLMNOPQRSTUVWXYZabcdefghijklmnopqrstuvwxyz0123456789''
               @ ''-_.!~*()'' @ [CHR 0x27]))"

definition escapeChar :: "char \<Rightarrow> string" where
  "escapeChar c =
     (let n = (of_char c :: nat)
      in [CHR ''%'', ''0123456789ABCDEF'' ! (n div 16), ''0123456789ABCDEF'' ! (n mod 16)])"

definition encodeURIComponent :: "string \<Rightarrow> string" where
  "encodeURIComponent s = concat (map (\<lambda>c. if unreserved c then [c] else escapeChar c) s)"

text \<open>
  \<^verbatim>\<open>doUserLogin\<close> (lines 669-717); the two arguments are the values of the user name
  and password inputs when the form is submitted.
\<close>

definition doUserLogin :: "string \<Rightarrow> string \<Rightarrow> state \<Rightarrow> state" where
  "doUserLogin usernameValue password s =
     (let username = trim usernameValue in
      if length username = 0 then (displayJsError MSG_ENTER_USERNAME s)\<lparr>isAnimating := False\<rparr>
      else
        let s = clearErrors s;
            s = s\<lparr>isAnimating := True\<rparr>;
            loginUrl = API_DO_LOGIN @ ''&username='' @ encodeURIComponent username
                       @ ''&password='' @ encodeURIComponent password
        in getRequest loginUrl (Some LoginFailed) s)"

text \<open>The submit listener of the login form (lines 795-802).\<close>

definition submitLogin :: "string \<Rightarrow> string \<Rightarrow> state \<Rightarrow> state" where
  "submitLogin usernameValue password s =
     (if \<not> isAnimating s then doUserLogin usernameValue password s else s)"

text \<open>
  \<^verbatim>\<open>doUserLogout\<close> (lines 720-746), which sets its fallback timer after the request,
  and the click listener of the logout button (lines 809-819), which tests the flag at
  the click and sets a timer for the call.
\<close>

definition doUserLogout :: "bool \<Rightarrow> state \<Rightarrow> state" where
  "doUserLogout eraseCookie s =
     (let s = s\<lparr>isAnimating := True\<rparr>;
          logoutUrl = (if eraseCookie then API_LOGOUT_ERASE else API_LOGOUT);
          s = getRequest logoutUrl (Some LogoutFailed) s
      in s\<lparr>timeouts := timeouts s @ [LogoutFallback]\<rparr>)"

definition clickLogout :: "bool \<Rightarrow> state \<Rightarrow> state" where
  "clickLogout erase s =
     (if \<not> isAnimating s then s\<lparr>timeouts := timeouts s @ [LogoutCall erase]\<rparr> else s)"

text \<open>A pending timeout fires: it is no longer pending, and its callback runs.\<close>

definition timeoutFires :: "timer \<Rightarrow> state \<Rightarrow> state" where
  "timeoutFires t s =
     (if t \<in> set (timeouts s) then
        let s = s\<lparr>timeouts := remove1 t (timeouts s)\<rparr>
        in case t of
             AnimationEnd \<Rightarrow> s\<lparr>isAnimating := False\<rparr>
           | LogoutFallback \<Rightarrow> s\<lparr>isAnimating := False\<rparr>
           | LogoutCall erase \<Rightarrow> doUserLogout erase s
      else s)"

text \<open>
  The variables as the script declares them (lines 12-15), on a page and under a
  protocol, and \<^verbatim>\<open>init\<close> (lines 944-958).
\<close>

definition loaded :: "string \<Rightarrow> (string \<rightharpoonup> element) \<Rightarrow> state" where
  "loaded proto page =
     \<lparr>isAnimating = False, isLoggedIn = False, statusPollInterval = None,
      hotspotApiData = None, protocol = proto, intervals = Map.empty, nextIntervalId = 1,
      inFlight = [], shown = NoPanel, errorText = [], errorShown = False,
      statusFields = page, timeouts = []\<rparr>"

definition init :: "state \<Rightarrow> state" where
  "init s = hideAllSections (getRequest API_LOGIN_STATUS None s)"


subsection \<open>The invariant of the poller and the status attributes\<close>

text \<open>The invariant of the specification: a poll timer handle is held only while logged in.\<close>

definition pollInvariant :: "state \<Rightarrow> bool" where
  "pollInvariant s = (statusPollInterval s \<noteq> None \<longrightarrow> isLoggedIn s)"


subsection \<open>A page and a session to run the script on\<close>

text \<open>
  A page with every status element, envelopes as the gateway sends them, and the states
  of a session: the page is loaded over HTTP, the first probe finds a session, the
  interval fires once, the first poll reports the session gone, the user submits the
  login form, the second poll comes back, the user submits again.
\<close>

definition mkElement :: "string \<Rightarrow> string \<Rightarrow> element" where
  "mkElement i t = \<lparr>elemId = i, tagName = t, content = Text [], display = []\<rparr>"

definition examplePage :: "string \<rightharpoonup> element" where
  "examplePage =
     map_of
      [(''username'', mkElement ''username'' ''P''),
       (''ip'', mkElement ''ip'' ''P''),
       (''uptime'', mkElement ''uptime'' ''P''),
       (''session_time_left'', mkElement ''session_time_left'' ''P''),
       (''bytes_out'', mkElement ''bytes_out'' ''P''),
       (''bytes_in'', mkElement ''bytes_in'' ''P''),
       (''remain_bytes_total'', mkElement ''remain_bytes_total'' ''P''),
       (''session_time_left_item'', mkElement ''status-time-left-item'' ''DIV''),
       (''remain_bytes_total_item'', mkElement ''status-remain-item'' ''DIV''),
       (''status_title'', mkElement ''status-title'' ''H2''),
       (''status_mac'', mkElement ''status-mac'' ''P'')]"

definition noNumber :: "string \<Rightarrow> int option" where
  "noNumber s = None"

definition sessionEnvelope :: "string \<Rightarrow> envelope" where
  "sessionEnvelope a =
     [''action'' \<mapsto> JStr a, ''logged_in'' \<mapsto> JBool True, ''username'' \<mapsto> JStr ''Card77'',
      ''ip'' \<mapsto> JStr ''10.5.50.7'', ''uptime'' \<mapsto> JStr ''1h2m'', ''bytes_in'' \<mapsto> JNum 2048]"

definition expiredEnvelope :: envelope where
  "expiredEnvelope = [''action'' \<mapsto> JStr ''onStatusQuery'', ''logged_in'' \<mapsto> JBool False]"

definition probeRequest :: request where
  "probeRequest = \<lparr>url = API_LOGIN_STATUS, callbackError = None\<rparr>"

definition pollingState :: state where
  "pollingState =
     deliver noNumber probeRequest (Response 200 (Object (sessionEnvelope ''onLoginStart'')))
       (init (loaded ''http:'' examplePage))"

definition secondPollSent :: state where
  "secondPollSent = pollTick 1 pollingState"

definition sessionExpired :: state where
  "sessionExpired = deliver noNumber pollRequest (Response 200 (Object expiredEnvelope)) secondPollSent"

definition loginSubmitted :: state where
  "loginSubmitted = submitLogin ''u1'' ''secret'' sessionExpired"

definition latePollArrived :: state where
  "latePollArrived =
     deliver noNumber pollRequest (Response 200 (Object expiredEnvelope)) loginSubmitted"

definition loginSubmittedAgain :: state where
  "loginSubmittedAgain = submitLogin ''u1'' ''secret'' latePollArrived"


section \<open>Properties of the string functions\<close>

text \<open>
  \<open>includes_str\<close> decides containment of a contiguous run; on a lower-cased text it
  decides containment up to the case of ASCII letters.
\<close>

lemma startsWith_iff: "startsWith s t \<longleftrightarrow> (\<exists>q. s = t @ q)"
  by (induction s t rule: startsWith.induct) auto

lemma includes_str_iff: "includes_str s t \<longleftrightarrow> (\<exists>p q. s = p @ t @ q)"
proof (induction s)
  case Nil
  then show ?case by auto
next
  case (Cons c s)
  show ?case
  proof
    assume "includes_str (c # s) t"
    then consider "startsWith (c # s) t" | "includes_str s t" by auto
    then show "\<exists>p q. c # s = p @ t @ q"
    proof cases
      case 1
      then obtain q where "c # s = t @ q" by (auto simp: startsWith_iff)
      then have "c # s = [] @ t @ q" by simp
      then show ?thesis by blast
    next
      case 2
      then obtain p q where "s = p @ t @ q" using Cons.IH by blast
      then have "c # s = (c # p) @ t @ q" by simp
      then show ?thesis by blast
    qed
  next
    assume "\<exists>p q. c # s = p @ t @ q"
    then obtain p q where pq: "c # s = p @ t @ q" by blast
    show "includes_str (c # s) t"
    proof (cases p)
      case Nil
      with pq have "startsWith (c # s) t" by (auto simp: startsWith_iff)
      then show ?thesis by simp
    next
      case (Cons a p')
      with pq have "s = p' @ t @ q" by simp
      then have "includes_str s t" using Cons.IH by blast
      then show ?thesis by simp
    qed
  qed
qed


lemma toLowerCase_append: "toLowerCase (a @ b) = toLowerCase a @ toLowerCase b"
  by (simp add: toLowerCase_def)

lemma includes_lower_iff:
  "includes_str (toLowerCase s) t \<longleftrightarrow> (\<exists>p m q. s = p @ m @ q \<and> toLowerCase m = t)"
proof
  assume "includes_str (toLowerCase s) t"
  then obtain p q where "map lowerChar s = p @ t @ q"
    by (auto simp: includes_str_iff toLowerCase_def)
  then obtain p' r where r: "s = p' @ r" "t @ q = map lowerChar r"
    unfolding map_eq_append_conv by blast
  from r(2) obtain m q' where "r = m @ q'" "t = map lowerChar m"
    unfolding append_eq_map_conv by blast
  with r show "\<exists>p m q. s = p @ m @ q \<and> toLowerCase m = t"
    by (auto simp: toLowerCase_def)
next
  assume "\<exists>p m q. s = p @ m @ q \<and> toLowerCase m = t"
  then obtain p m q where "s = p @ m @ q" "toLowerCase m = t" by blast
  then have "toLowerCase s = toLowerCase p @ t @ toLowerCase q"
    by (simp add: toLowerCase_append)
  then show "includes_str (toLowerCase s) t"
    unfolding includes_str_iff by blast
qed


lemma Math_round_div:
  assumes "0 < d"
  shows "Math_round (of_int n / of_int (2 * d)) = (n + d) div (2 * d)"
proof -
  have "(of_int n :: rat) / of_int (2 * d) + 1 / 2 = of_int (n + d) / of_int (2 * d)"
    using assms by (simp add: field_simps)
  then show ?thesis unfolding Math_round_def by (simp only: floor_divide_of_int_eq)
qed

lemma round_kb: "Math_round (of_int n / 1024) = (n + 512) div 1024"
  using Math_round_div[of 512 n] by simp

lemma round_mb: "Math_round (of_int n / 1048576) = (n + 524288) div 1048576"
  using Math_round_div[of 524288 n] by simp


section \<open>Properties of the transitions\<close>

text \<open>What the logout transition and the poller leave in each variable.\<close>

lemmas view_defs =
  hideAllSections_def showLoginSection_def showStatusSection_def clearErrors_def
  displayJsError_def

lemma handleLoggedOut_fields:
  "isLoggedIn (handleLoggedOut s) = False"
  "statusPollInterval (handleLoggedOut s) = None"
  "intervals (handleLoggedOut s) =
     (case statusPollInterval s of None \<Rightarrow> intervals s | Some h \<Rightarrow> (intervals s)(h := None))"
  "inFlight (handleLoggedOut s) = inFlight s"
  "protocol (handleLoggedOut s) = protocol s"
  "isAnimating (handleLoggedOut s) = isAnimating s"
  "errorText (handleLoggedOut s) = []"
  "errorShown (handleLoggedOut s) = False"
  "shown (handleLoggedOut s) = LoginPanel"
  "statusFields (handleLoggedOut s) = clearStatusFields (statusFields s)"
  by (cases "statusPollInterval s";
      simp add: handleLoggedOut_def Let_def stopStatusPolling_def view_defs)+

lemma stopStatusPolling_fields:
  "isLoggedIn (stopStatusPolling s) = isLoggedIn s"
  "statusPollInterval (stopStatusPolling s) = None"
  "intervals (stopStatusPolling s) =
     (case statusPollInterval s of None \<Rightarrow> intervals s | Some h \<Rightarrow> (intervals s)(h := None))"
  "inFlight (stopStatusPolling s) = inFlight s"
  by (cases "statusPollInterval s"; simp add: stopStatusPolling_def)+

lemma stopStatusPolling_idem: "stopStatusPolling (stopStatusPolling s) = stopStatusPolling s"
  by (cases "statusPollInterval s") (simp_all add: stopStatusPolling_def)

lemma includes_status: "includes_str API_STATUS ''/status''"
  by code_simp

lemma getRequest_sends:
  "protocol s \<noteq> ''file:'' \<Longrightarrow>
   getRequest u cb s = s\<lparr>inFlight := inFlight s @ [\<lparr>url = u, callbackError = cb\<rparr>]\<rparr>"
  by (simp add: getRequest_def)

lemma getRequest_file:
  "protocol s = ''file:'' \<Longrightarrow> getRequest u cb s = showLoginSection (handleLoggedOut s)"
  by (simp add: getRequest_def)


text \<open>Clearing the status elements twice is clearing them once.\<close>

lemma clearField_idem: "clearField (clearField e) = clearField e"
  by (simp add: clearField_def)

lemma clearField_content: "(clearField (e\<lparr>content := c\<rparr>))\<lparr>content := c'\<rparr> = (clearField e)\<lparr>content := c'\<rparr>"
  by (simp add: clearField_def)

lemma map_clearField_idem:
  "map_option clearField (map_option clearField x) = map_option clearField x"
  by (cases x) (simp_all add: clearField_idem)

lemma clearStatusFields_idem: "clearStatusFields (clearStatusFields fs) = clearStatusFields fs"
proof (rule ext)
  fix key
  have t: "''status_title'' \<in> set statusFieldKeys" by (simp add: statusFieldKeys_def)
  show "clearStatusFields (clearStatusFields fs) key = clearStatusFields fs key"
    by (cases "fs ''status_title''")
       (auto simp: clearStatusFields_def Let_def t clearField_idem clearField_content map_clearField_idem
             split: option.splits)
qed









lemma updateStatusTitle_fields:
  "k \<noteq> ''status_title'' \<Longrightarrow> statusFields (updateStatusTitle data s) k = statusFields s k"
  "isLoggedIn (updateStatusTitle data s) = isLoggedIn s"
  "statusPollInterval (updateStatusTitle data s) = statusPollInterval s"
  "protocol (updateStatusTitle data s) = protocol s"
  by (auto simp: updateStatusTitle_def Let_def split: option.splits jsval.splits)



lemma handleLoggedIn_with_session:
  assumes "truthyField data ''logged_in''"
  shows "handleLoggedIn N data s =
           startStatusPolling
             (showStatusSection
                (updateStatusTitle data
                   ((clearErrors (s\<lparr>isLoggedIn := True\<rparr>))
                      \<lparr>statusFields := fold (updateField N data) statusFieldKeys (statusFields s)\<rparr>)))"
proof -
  let ?s1 = "clearErrors (s\<lparr>isLoggedIn := True\<rparr>)"
  have "handleStatusQuery N data ?s1 =
          updateStatusTitle data
            (?s1\<lparr>statusFields := fold (updateField N data) statusFieldKeys (statusFields ?s1)\<rparr>)"
    using assms by (subst handleStatusQuery.simps) (simp add: view_defs)
  moreover have "statusFields ?s1 = statusFields s" by (simp add: view_defs)
  ultimately show ?thesis
    by (subst handleLoggedIn.simps) (simp add: Let_def)
qed

text \<open>The example session: after the first probe the page is logged in and polls.\<close>

lemma pollingState_facts:
  "isLoggedIn pollingState" "statusPollInterval pollingState = Some 1"
  "intervals pollingState 1 = Some 1500" "protocol pollingState = ''http:''"
  "inFlight pollingState = [pollRequest]"
  by code_simp+

text \<open>
  The logout transition run again on what it has left, also with the animation flag
  rewritten in between, gives what one run gives.
\<close>

lemma logout_twice:
  "showLoginSection (handleLoggedOut ((showLoginSection (handleLoggedOut s))\<lparr>isAnimating := a\<rparr>))
     = showLoginSection (handleLoggedOut (s\<lparr>isAnimating := a\<rparr>))"
  by (cases "statusPollInterval s")
     (simp_all add: handleLoggedOut_def Let_def stopStatusPolling_def clearErrors_def
       showLoginSection_def hideAllSections_def clearStatusFields_idem)

text \<open>
  The part of \<^verbatim>\<open>onreadystatechange\<close> that a failed poll reaches: with any status
  other than 200, so also with the status 0 of a request that got no response, it runs
  the logout transition.
\<close>

lemma onreadystatechange_poll_failed:
  "status \<noteq> 200 \<Longrightarrow>
   onreadystatechange N pollRequest 4 status b s
     = showLoginSection (handleLoggedOut (s\<lparr>isAnimating := False\<rparr>))"
  by (simp add: onreadystatechange_def pollRequest_def includes_status Let_def)

text \<open>The handler \<^verbatim>\<open>onerror\<close> by itself clears the animation flag of a poll, and no more.\<close>

lemma onerror_poll: "onerror pollRequest s = s\<lparr>isAnimating := False\<rparr>"
  by (simp add: onerror_def pollRequest_def includes_status Let_def)

text \<open>The handler \<^verbatim>\<open>ontimeout\<close> runs the logout transition on a poll.\<close>

lemma ontimeout_poll:
  "ontimeout pollRequest s = showLoginSection (handleLoggedOut (s\<lparr>isAnimating := False\<rparr>))"
  by (simp add: ontimeout_def pollRequest_def includes_status Let_def)

section \<open>Poll failures\<close>

text \<open>
  Claim C1, as the script has it. When a status poll ends in a timeout, the script runs
  the logout transition: whatever the state was, and so also while logged in, the state
  afterwards is logged out, the poll timer is stopped and its handle dropped, and no
  error is shown to the user.
\<close>

theorem poll_timeout_logs_out:
  "deliver N pollRequest Timeout s =
     showLoginSection
       (handleLoggedOut (s\<lparr>inFlight := remove1 pollRequest (inFlight s), isAnimating := False\<rparr>)) \<and>
   \<not> isLoggedIn (deliver N pollRequest Timeout s) \<and>
   statusPollInterval (deliver N pollRequest Timeout s) = None \<and>
   (\<forall>h. statusPollInterval s = Some h \<longrightarrow> intervals (deliver N pollRequest Timeout s) h = None) \<and>
   errorText (deliver N pollRequest Timeout s) = [] \<and>
   \<not> errorShown (deliver N pollRequest Timeout s)"
proof -
  have e: "deliver N pollRequest Timeout s =
     showLoginSection
       (handleLoggedOut (s\<lparr>inFlight := remove1 pollRequest (inFlight s), isAnimating := False\<rparr>))"
    by (simp add: deliver_def ontimeout_poll onreadystatechange_poll_failed logout_twice Let_def)
  show ?thesis unfolding e by (auto simp: view_defs handleLoggedOut_fields)
qed

text \<open>The timeout of the first poll of the example session.\<close>

theorem poll_timeout_logs_out_witness:
  "statusPollInterval pollingState = Some 1 \<and>
   \<not> isLoggedIn (deliver noNumber pollRequest Timeout pollingState) \<and>
   statusPollInterval (deliver noNumber pollRequest Timeout pollingState) = None \<and>
   intervals (deliver noNumber pollRequest Timeout pollingState) 1 = None \<and>
   errorText (deliver noNumber pollRequest Timeout pollingState) = [] \<and>
   \<not> errorShown (deliver noNumber pollRequest Timeout pollingState)"
  using poll_timeout_logs_out[of noNumber pollingState] pollingState_facts(2) by blast

text \<open>
  The state does not remain logged in: the example session is logged in and polling
  with timer 1, its poll is in flight, and after that poll times out the session is
  logged out and the timer is gone.
\<close>

theorem poll_timeout_counterexample:
  "isLoggedIn pollingState \<and> statusPollInterval pollingState = Some 1 \<and>
   intervals pollingState 1 = Some 1500 \<and> inFlight pollingState = [pollRequest] \<and>
   \<not> isLoggedIn (deliver noNumber pollRequest Timeout pollingState) \<and>
   statusPollInterval (deliver noNumber pollRequest Timeout pollingState) = None \<and>
   intervals (deliver noNumber pollRequest Timeout pollingState) 1 = None"
  by code_simp

text \<open>
  A status poll answered with any status other than 200, and a status poll that fails
  on the network, both end in the logout transition: the state is logged out, the poll
  timer is stopped and its handle dropped. For the network error this is the work of
  \<^verbatim>\<open>onreadystatechange\<close>, which the browser runs with status 0 before \<^verbatim>\<open>onerror\<close>.
\<close>

lemma poll_http_error_logs_out:
  assumes "status \<noteq> 200"
  shows "deliver N pollRequest (Response status b) s =
           showLoginSection
             (handleLoggedOut
                (s\<lparr>inFlight := remove1 pollRequest (inFlight s), isAnimating := False\<rparr>))"
    and "\<not> isLoggedIn (deliver N pollRequest (Response status b) s)"
    and "statusPollInterval (deliver N pollRequest (Response status b) s) = None"
    and "statusPollInterval s = Some h \<Longrightarrow>
         intervals (deliver N pollRequest (Response status b) s) h = None"
proof -
  show e: "deliver N pollRequest (Response status b) s =
           showLoginSection
             (handleLoggedOut
                (s\<lparr>inFlight := remove1 pollRequest (inFlight s), isAnimating := False\<rparr>))"
    using assms by (simp add: deliver_def onreadystatechange_poll_failed Let_def)
  show "\<not> isLoggedIn (deliver N pollRequest (Response status b) s)"
    unfolding e by (simp add: view_defs handleLoggedOut_fields)
  show "statusPollInterval (deliver N pollRequest (Response status b) s) = None"
    unfolding e by (simp add: view_defs handleLoggedOut_fields)
  show "statusPollInterval s = Some h \<Longrightarrow>
        intervals (deliver N pollRequest (Response status b) s) h = None"
    unfolding e by (simp add: view_defs handleLoggedOut_fields)
qed

lemma poll_network_error_delivered:
  "deliver N pollRequest NetworkError s =
     showLoginSection
       (handleLoggedOut (s\<lparr>inFlight := remove1 pollRequest (inFlight s), isAnimating := False\<rparr>))"
proof -
  let ?t = "showLoginSection
       (handleLoggedOut (s\<lparr>inFlight := remove1 pollRequest (inFlight s), isAnimating := False\<rparr>))"
  have "isAnimating ?t = False" by (simp add: view_defs handleLoggedOut_fields)
  then have "?t\<lparr>isAnimating := False\<rparr> = ?t" by (cases ?t) simp
  then show ?thesis
    by (simp add: deliver_def onerror_poll onreadystatechange_poll_failed Let_def)
qed

text \<open>
  Claim C3 does not hold of the script for the network error. The example session is
  logged in and polls with timer 1, and its poll is in flight. Run by itself on that
  poll, \<^verbatim>\<open>onerror\<close> keeps the session and the timer, as its comment says (``Will
  retry''). But a request that fails on the network is reported by
  \<^verbatim>\<open>readystatechange\<close> first, with status 0, and \<^verbatim>\<open>onreadystatechange\<close> takes
  its branch for a status other than 200: once the browser has delivered the network
  error, the session is logged out, the handle is dropped and the timer is cleared.
\<close>

theorem poll_network_error_logs_out:
  "isLoggedIn pollingState \<and> statusPollInterval pollingState = Some 1 \<and>
   intervals pollingState 1 = Some 1500 \<and> inFlight pollingState = [pollRequest] \<and>
   isLoggedIn (onerror pollRequest pollingState) \<and>
   statusPollInterval (onerror pollRequest pollingState) = Some 1 \<and>
   intervals (onerror pollRequest pollingState) 1 = Some 1500 \<and>
   \<not> isLoggedIn (onreadystatechange noNumber pollRequest 4 0 SyntaxError pollingState) \<and>
   \<not> isLoggedIn (deliver noNumber pollRequest NetworkError pollingState) \<and>
   statusPollInterval (deliver noNumber pollRequest NetworkError pollingState) = None \<and>
   intervals (deliver noNumber pollRequest NetworkError pollingState) 1 = None"
  by code_simp

section \<open>Reconciliation of the status envelope\<close>



text \<open>
  Claim C7. When the envelope given to the login handler has no \<^verbatim>\<open>logged_in\<close> field,
  or a false (falsy) one, the handler sets the login flag, the status handler it calls
  runs the logout transition at once, and polling is not started: the final state is
  logged out, with no poll timer handle and the former timer dropped.
\<close>

theorem handleLoggedIn_without_session:
  assumes "\<not> truthyField data ''logged_in''"
  shows "handleLoggedIn N data s =
           showStatusSection
             (showLoginSection (handleLoggedOut (clearErrors (s\<lparr>isLoggedIn := True\<rparr>)))) \<and>
         \<not> isLoggedIn (handleLoggedIn N data s) \<and>
         statusPollInterval (handleLoggedIn N data s) = None \<and>
         (\<forall>h. statusPollInterval s = Some h \<longrightarrow> intervals (handleLoggedIn N data s) h = None)"
proof -
  let ?s1 = "clearErrors (s\<lparr>isLoggedIn := True\<rparr>)"
  let ?s2 = "showLoginSection (handleLoggedOut ?s1)"
  have q: "handleStatusQuery N data ?s1 = ?s2"
    using assms by (subst handleStatusQuery.simps) (simp add: view_defs)
  have l: "\<not> isLoggedIn (showStatusSection ?s2)"
    by (simp add: view_defs handleLoggedOut_fields)
  have e: "handleLoggedIn N data s = showStatusSection ?s2"
    using l by (subst handleLoggedIn.simps) (simp add: Let_def q startStatusPolling_def)
  show ?thesis
    unfolding e by (auto simp: view_defs handleLoggedOut_fields)
qed

text \<open>An envelope without the field and one with a false field, on the example session.\<close>

theorem handleLoggedIn_without_session_witness:
  "\<not> truthyField [''action'' \<mapsto> JStr ''onLoggedIn''] ''logged_in'' \<and>
   \<not> isLoggedIn (handleLoggedIn noNumber [''action'' \<mapsto> JStr ''onLoggedIn''] pollingState) \<and>
   statusPollInterval (handleLoggedIn noNumber [''action'' \<mapsto> JStr ''onLoggedIn''] pollingState)
     = None \<and>
   intervals (handleLoggedIn noNumber [''action'' \<mapsto> JStr ''onLoggedIn''] pollingState) 1 = None \<and>
   \<not> truthyField [''action'' \<mapsto> JStr ''onLoggedIn'', ''logged_in'' \<mapsto> JBool False] ''logged_in'' \<and>
   \<not> isLoggedIn (handleLoggedIn noNumber
        [''action'' \<mapsto> JStr ''onLoggedIn'', ''logged_in'' \<mapsto> JBool False] pollingState)"
proof -
  have a: "\<not> truthyField [''action'' \<mapsto> JStr ''onLoggedIn''] ''logged_in''"
    by (simp add: truthyField_def)
  have b: "\<not> truthyField [''action'' \<mapsto> JStr ''onLoggedIn'', ''logged_in'' \<mapsto> JBool False]
             ''logged_in''"
    by (simp add: truthyField_def)
  show ?thesis
    using handleLoggedIn_without_session[OF a, of noNumber pollingState]
      handleLoggedIn_without_session[OF b, of noNumber pollingState] a b pollingState_facts(2)
    by blast
qed

section \<open>The logout transition\<close>

text \<open>
  Claim C6. Running the logout transition twice in a row, from any state, gives the
  same state as running it once: the login flag, the status elements, the poll timer and
  every other variable agree.
\<close>

theorem handleLoggedOut_idempotent:
  "handleLoggedOut (handleLoggedOut s) = handleLoggedOut s"
  by (cases "statusPollInterval s")
     (simp_all add: handleLoggedOut_def Let_def stopStatusPolling_def clearErrors_def
       showLoginSection_def hideAllSections_def clearStatusFields_idem)

text \<open>The logout transition run twice on the example session.\<close>

theorem handleLoggedOut_idempotent_witness:
  "handleLoggedOut (handleLoggedOut pollingState) = handleLoggedOut pollingState"
  using handleLoggedOut_idempotent[of pollingState] .

section \<open>The poller\<close>

text \<open>
  Claim C4. \<^verbatim>\<open>startStatusPolling\<close> changes nothing when a timer handle is held or
  the script is not logged in; otherwise (on a page served over HTTP) it sends one status
  request at once and sets a timer of period 1500 ms, whose handle it keeps, and each
  firing of a set timer sends one more status request while logged in and stops the
  polling when not. \<^verbatim>\<open>stopStatusPolling\<close> done twice is done once, and it clears the
  handle and the timer. The three operations keep the invariant that a timer handle is
  held only while logged in.
\<close>

theorem poller_contract:
  "(statusPollInterval s \<noteq> None \<or> \<not> isLoggedIn s \<longrightarrow> startStatusPolling s = s) \<and>
   (statusPollInterval s = None \<and> isLoggedIn s \<and> protocol s \<noteq> ''file:'' \<longrightarrow>
      inFlight (startStatusPolling s) = inFlight s @ [pollRequest] \<and>
      statusPollInterval (startStatusPolling s) = Some (nextIntervalId s) \<and>
      intervals (startStatusPolling s) (nextIntervalId s) = Some 1500 \<and>
      isLoggedIn (startStatusPolling s)) \<and>
   (intervals s h \<noteq> None \<and> isLoggedIn s \<and> protocol s \<noteq> ''file:'' \<longrightarrow>
      pollTick h s = s\<lparr>inFlight := inFlight s @ [pollRequest]\<rparr>) \<and>
   (intervals s h \<noteq> None \<and> \<not> isLoggedIn s \<longrightarrow> pollTick h s = stopStatusPolling s) \<and>
   stopStatusPolling (stopStatusPolling s) = stopStatusPolling s \<and>
   statusPollInterval (stopStatusPolling s) = None \<and>
   (\<forall>t. statusPollInterval s = Some t \<longrightarrow> intervals (stopStatusPolling s) t = None) \<and>
   (pollInvariant s \<and> protocol s \<noteq> ''file:'' \<longrightarrow> pollInvariant (startStatusPolling s)) \<and>
   pollInvariant (stopStatusPolling s) \<and>
   (pollInvariant s \<longrightarrow> pollInvariant (pollTick h s))"
proof -
  have a: "statusPollInterval s \<noteq> None \<or> \<not> isLoggedIn s \<longrightarrow> startStatusPolling s = s"
    by (auto simp: startStatusPolling_def)
  have b: "statusPollInterval s = None \<and> isLoggedIn s \<and> protocol s \<noteq> ''file:'' \<longrightarrow>
      inFlight (startStatusPolling s) = inFlight s @ [pollRequest] \<and>
      statusPollInterval (startStatusPolling s) = Some (nextIntervalId s) \<and>
      intervals (startStatusPolling s) (nextIntervalId s) = Some 1500 \<and>
      isLoggedIn (startStatusPolling s)"
    by (simp add: startStatusPolling_def getRequest_sends Let_def pollRequest_def
          STATUS_POLL_INTERVAL_def)
  have c: "intervals s h \<noteq> None \<and> isLoggedIn s \<and> protocol s \<noteq> ''file:'' \<longrightarrow>
      pollTick h s = s\<lparr>inFlight := inFlight s @ [pollRequest]\<rparr>"
    by (auto simp: pollTick_def getRequest_sends pollRequest_def)
  have d: "intervals s h \<noteq> None \<and> \<not> isLoggedIn s \<longrightarrow> pollTick h s = stopStatusPolling s"
    by (auto simp: pollTick_def)
  have e: "\<forall>t. statusPollInterval s = Some t \<longrightarrow> intervals (stopStatusPolling s) t = None"
    by (simp add: stopStatusPolling_fields)
  have f: "pollInvariant s \<and> protocol s \<noteq> ''file:'' \<longrightarrow> pollInvariant (startStatusPolling s)"
    using a b by (cases "statusPollInterval s = None \<and> isLoggedIn s")
                 (auto simp: pollInvariant_def)
  have g: "pollInvariant (stopStatusPolling s)"
    by (simp add: pollInvariant_def stopStatusPolling_fields)
  have i: "pollInvariant s \<longrightarrow> pollInvariant (pollTick h s)"
  proof (cases "protocol s = ''file:''")
    case True
    then show ?thesis
      by (auto simp: pollTick_def pollInvariant_def getRequest_file view_defs
            handleLoggedOut_fields stopStatusPolling_fields)
  next
    case False
    then show ?thesis
      by (auto simp: pollTick_def pollInvariant_def getRequest_sends stopStatusPolling_fields)
  qed
  from a b c d e f g i show ?thesis
    by (simp add: stopStatusPolling_idem stopStatusPolling_fields)
qed

text \<open>
  Starting on the example session (which polls already) and after its polling was
  stopped; a firing of timer 1 while logged in and while not; the invariant.
\<close>

theorem poller_contract_witness:
  "startStatusPolling pollingState = pollingState \<and>
   inFlight (startStatusPolling (stopStatusPolling pollingState)) = [pollRequest, pollRequest] \<and>
   statusPollInterval (startStatusPolling (stopStatusPolling pollingState)) = Some 2 \<and>
   intervals (startStatusPolling (stopStatusPolling pollingState)) 2 = Some 1500 \<and>
   pollTick 1 pollingState = pollingState\<lparr>inFlight := inFlight pollingState @ [pollRequest]\<rparr> \<and>
   pollTick 1 (pollingState\<lparr>isLoggedIn := False\<rparr>)
     = stopStatusPolling (pollingState\<lparr>isLoggedIn := False\<rparr>) \<and>
   intervals (stopStatusPolling pollingState) 1 = None \<and>
   pollInvariant pollingState \<and>
   pollInvariant (startStatusPolling pollingState) \<and>
   pollInvariant (pollTick 1 pollingState)"
proof -
  let ?idle = "stopStatusPolling pollingState"
  let ?out = "pollingState\<lparr>isLoggedIn := False\<rparr>"
  have i: "statusPollInterval ?idle = None \<and> isLoggedIn ?idle \<and> protocol ?idle \<noteq> ''file:''"
    "nextIntervalId ?idle = 2" "inFlight ?idle = [pollRequest]"
    by code_simp+
  have p: "statusPollInterval pollingState \<noteq> None \<or> \<not> isLoggedIn pollingState"
    "intervals pollingState 1 \<noteq> None \<and> isLoggedIn pollingState \<and> protocol pollingState \<noteq> ''file:''"
    "pollInvariant pollingState \<and> protocol pollingState \<noteq> ''file:''"
    by code_simp+
  have q: "intervals ?out 1 \<noteq> None \<and> \<not> isLoggedIn ?out" by code_simp
  note a = poller_contract[of pollingState 1]
  from a p(1) have 1: "startStatusPolling pollingState = pollingState" by blast
  from poller_contract[of ?idle 1] i(1)
  have "inFlight (startStatusPolling ?idle) = inFlight ?idle @ [pollRequest] \<and>
      statusPollInterval (startStatusPolling ?idle) = Some (nextIntervalId ?idle) \<and>
      intervals (startStatusPolling ?idle) (nextIntervalId ?idle) = Some 1500" by blast
  then have 2: "inFlight (startStatusPolling ?idle) = [pollRequest, pollRequest] \<and>
      statusPollInterval (startStatusPolling ?idle) = Some 2 \<and>
      intervals (startStatusPolling ?idle) 2 = Some 1500"
    unfolding i(2) i(3) by simp
  from a p(2) have 3: "pollTick 1 pollingState
      = pollingState\<lparr>inFlight := inFlight pollingState @ [pollRequest]\<rparr>" by blast
  from poller_contract[of ?out 1] q have 4: "pollTick 1 ?out = stopStatusPolling ?out" by blast
  from a pollingState_facts(2) have 5: "intervals (stopStatusPolling pollingState) 1 = None"
    by blast
  from a p(3) have 6: "pollInvariant pollingState \<and> pollInvariant (startStatusPolling pollingState)
    \<and> pollInvariant (pollTick 1 pollingState)" by blast
  from 1 2 3 4 5 6 show ?thesis by blast
qed

section \<open>Login submissions\<close>

text \<open>
  Claim C5 does not hold of the script. The submit listener drops a submission while
  \<^verbatim>\<open>isAnimating\<close> is set, and \<^verbatim>\<open>doUserLogin\<close> sets it; but the completion of any
  request clears it, also of a status poll sent before the session expired. In the
  example session the login form is submitted while such a poll is in flight; when the
  poll comes back the flag is cleared with the login request still in flight, and a
  second submission sends a second login request.
\<close>

theorem second_login_while_first_in_flight:
  "inFlight loginSubmitted
     = [pollRequest,
        \<lparr>url = ''/login?var=callBack&username=u1&password=secret'',
         callbackError = Some LoginFailed\<rparr>] \<and>
   isAnimating loginSubmitted \<and>
   inFlight latePollArrived
     = [\<lparr>url = ''/login?var=callBack&username=u1&password=secret'',
         callbackError = Some LoginFailed\<rparr>] \<and>
   \<not> isAnimating latePollArrived \<and> \<not> isLoggedIn latePollArrived \<and>
   inFlight loginSubmittedAgain
     = [\<lparr>url = ''/login?var=callBack&username=u1&password=secret'',
         callbackError = Some LoginFailed\<rparr>,
        \<lparr>url = ''/login?var=callBack&username=u1&password=secret'',
         callbackError = Some LoginFailed\<rparr>]"
  by code_simp

text \<open>
  What the guard does hold: while \<^verbatim>\<open>isAnimating\<close> is set, a submission changes
  nothing; and a submission that passes the guard with a user name that is not blank
  (on a page served over HTTP) sets the flag and sends exactly one login request, so
  that a submission right after it, whatever the form holds, is dropped.
\<close>

theorem submitLogin_single_flight:
  "(isAnimating s \<longrightarrow> submitLogin u p s = s) \<and>
   (\<not> isAnimating s \<and> trim u \<noteq> [] \<and> protocol s \<noteq> ''file:'' \<longrightarrow>
      isAnimating (submitLogin u p s) \<and>
      length (inFlight (submitLogin u p s)) = length (inFlight s) + 1 \<and>
      submitLogin u' p' (submitLogin u p s) = submitLogin u p s)"
proof (intro conjI impI)
  assume "isAnimating s" then show "submitLogin u p s = s" by (simp add: submitLogin_def)
next
  assume a: "\<not> isAnimating s \<and> trim u \<noteq> [] \<and> protocol s \<noteq> ''file:''"
  then show b: "isAnimating (submitLogin u p s)"
    by (simp add: submitLogin_def doUserLogin_def Let_def getRequest_def clearErrors_def)
  from a show "length (inFlight (submitLogin u p s)) = length (inFlight s) + 1"
    by (simp add: submitLogin_def doUserLogin_def Let_def getRequest_def clearErrors_def)
  from b show "submitLogin u' p' (submitLogin u p s) = submitLogin u p s"
    by (simp add: submitLogin_def)
qed

text \<open>The first submission of the example session, and a second one right after it.\<close>

theorem submitLogin_single_flight_witness:
  "isAnimating (submitLogin ''u1'' ''secret'' sessionExpired) \<and>
   length (inFlight (submitLogin ''u1'' ''secret'' sessionExpired))
     = length (inFlight sessionExpired) + 1 \<and>
   submitLogin ''u1'' ''secret'' (submitLogin ''u1'' ''secret'' sessionExpired)
     = submitLogin ''u1'' ''secret'' sessionExpired"
proof -
  have "\<not> isAnimating sessionExpired \<and> trim ''u1'' \<noteq> [] \<and> protocol sessionExpired \<noteq> ''file:''"
    by code_simp
  then show ?thesis
    using submitLogin_single_flight[of sessionExpired "''u1''" "''secret''" "''u1''" "''secret''"]
    by blast
qed

text \<open>
  The flag is cleared by the timers too: the fallback of a logout and the end of the
  status animation clear it when they fire, whatever is in flight then.
\<close>

lemma timeoutFires_clears_flag:
  assumes "t \<in> set (timeouts s)" and "t = AnimationEnd \<or> t = LogoutFallback"
  shows "\<not> isAnimating (timeoutFires t s)"
    and "inFlight (timeoutFires t s) = inFlight s"
  using assms by (auto simp: timeoutFires_def Let_def)

text \<open>
  An envelope whose action names a method that the table inherits passes the test of
  line 354; called on a status poll, \<^verbatim>\<open>toString\<close> returns and the script goes on as
  after a handler of its own.
\<close>

lemma inherited_action_poll:
  assumes "data ''action'' = Some (JStr ''toString'')"
  shows "deliver N pollRequest (Response 200 (Object data)) s
           = s\<lparr>inFlight := remove1 pollRequest (inFlight s), isAnimating := False\<rparr>"
proof -
  have v: "validAction data = Some (Inherited ''toString'')"
    using assms
    by (simp add: validAction_def truthyField_def apiActionHandlers_def objectPrototypeMethods_def)
  show ?thesis
    by (simp add: deliver_def onreadystatechange_def v callInherited_def Let_def)
qed

section \<open>Scenarios of the specification\<close>

text \<open>
  The start of a page: when the first probe is answered with the action
  \<^verbatim>\<open>onLoginStart\<close> and a \<^verbatim>\<open>logged_in\<close> field other than \<^verbatim>\<open>true\<close>, the state is
  logged out, no poll timer is set and the login form is shown.
\<close>

theorem startup_probe_logged_out:
  assumes "data ''action'' = Some (JStr ''onLoginStart'')"
    and "data ''logged_in'' \<noteq> Some (JBool True)"
  shows "\<not> isLoggedIn (deliver N probeRequest (Response 200 (Object data)) s) \<and>
         statusPollInterval (deliver N probeRequest (Response 200 (Object data)) s) = None \<and>
         shown (deliver N probeRequest (Response 200 (Object data)) s) = LoginPanel \<and>
         inFlight (deliver N probeRequest (Response 200 (Object data)) s)
           = remove1 probeRequest (inFlight s)"
proof -
  let ?s0 = "s\<lparr>inFlight := remove1 probeRequest (inFlight s), isAnimating := False\<rparr>"
  let ?s1 = "?s0\<lparr>hotspotApiData := Some data, isLoggedIn := False\<rparr>"
  have v: "validAction data = Some OnLoginStart"
    using assms(1) by (simp add: validAction_def truthyField_def apiActionHandlers_def)
  have "deliver N probeRequest (Response 200 (Object data)) s = showLoginSection (handleLoggedOut ?s1)"
    using assms(2) by (simp add: deliver_def onreadystatechange_def v handleLoginStart_def Let_def)
  then show ?thesis
    by (cases "statusPollInterval s")
       (simp_all add: handleLoggedOut_def Let_def stopStatusPolling_def clearErrors_def
          showLoginSection_def hideAllSections_def)
qed

text \<open>The probe of a freshly loaded page, answered without a session.\<close>

theorem startup_probe_logged_out_witness:
  "[''action'' \<mapsto> JStr ''onLoginStart'', ''logged_in'' \<mapsto> JBool False] ''action''
     = Some (JStr ''onLoginStart'') \<and>
   \<not> isLoggedIn (deliver noNumber probeRequest
        (Response 200 (Object [''action'' \<mapsto> JStr ''onLoginStart'', ''logged_in'' \<mapsto> JBool False]))
        (init (loaded ''http:'' examplePage))) \<and>
   statusPollInterval (deliver noNumber probeRequest
        (Response 200 (Object [''action'' \<mapsto> JStr ''onLoginStart'', ''logged_in'' \<mapsto> JBool False]))
        (init (loaded ''http:'' examplePage))) = None"
proof -
  let ?d = "[''action'' \<mapsto> JStr ''onLoginStart'', ''logged_in'' \<mapsto> JBool False]"
  have a: "?d ''action'' = Some (JStr ''onLoginStart'')" by simp
  have b: "?d ''logged_in'' \<noteq> Some (JBool True)" by simp
  from startup_probe_logged_out[OF a b, of noNumber "init (loaded ''http:'' examplePage)"] a
  show ?thesis by blast
qed

text \<open>
  A successful login: when a request is answered with the action \<^verbatim>\<open>onLoggedIn\<close> and
  a true \<^verbatim>\<open>logged_in\<close> field while no poll timer is set (page served over HTTP), the
  state is logged in, the status section is shown, a timer of 1500 ms is set and the
  first status poll is sent at once.
\<close>

theorem login_success_starts_polling:
  assumes "data ''action'' = Some (JStr ''onLoggedIn'')"
    and "truthyField data ''logged_in''"
    and "protocol s \<noteq> ''file:''"
    and "statusPollInterval s = None"
  shows "isLoggedIn (deliver N req (Response 200 (Object data)) s) \<and>
         statusPollInterval (deliver N req (Response 200 (Object data)) s)
           = Some (nextIntervalId s) \<and>
         intervals (deliver N req (Response 200 (Object data)) s) (nextIntervalId s)
           = Some 1500 \<and>
         inFlight (deliver N req (Response 200 (Object data)) s)
           = remove1 req (inFlight s) @ [pollRequest] \<and>
         shown (deliver N req (Response 200 (Object data)) s) = StatusPanel"
proof -
  let ?s0 = "s\<lparr>inFlight := remove1 req (inFlight s), isAnimating := False\<rparr>"
  let ?s3 = "showStatusSection
                (updateStatusTitle data
                   ((clearErrors (?s0\<lparr>isLoggedIn := True\<rparr>))
                      \<lparr>statusFields := fold (updateField N data) statusFieldKeys (statusFields ?s0)\<rparr>))"
  have v: "validAction data = Some OnLoggedIn"
    using assms(1) by (simp add: validAction_def truthyField_def apiActionHandlers_def)
  have d: "deliver N req (Response 200 (Object data)) s = startStatusPolling ?s3"
    using handleLoggedIn_with_session[OF assms(2), of N ?s0]
    by (simp add: deliver_def onreadystatechange_def v Let_def)
  have u: "nextIntervalId (updateStatusTitle data t) = nextIntervalId t"
          "inFlight (updateStatusTitle data t) = inFlight t"
          "intervals (updateStatusTitle data t) = intervals t" for t
    by (auto simp: updateStatusTitle_def Let_def split: option.splits jsval.splits)
  have f: "isLoggedIn ?s3" "statusPollInterval ?s3 = None" "protocol ?s3 \<noteq> ''file:''"
    "nextIntervalId ?s3 = nextIntervalId s" "inFlight ?s3 = remove1 req (inFlight s)"
    using assms(3,4) by (simp_all add: view_defs updateStatusTitle_fields u)
  show ?thesis
    unfolding d using f
    by (simp add: startStatusPolling_def getRequest_sends Let_def pollRequest_def
          STATUS_POLL_INTERVAL_def view_defs)
qed

text \<open>The login request of the example session, answered with a session.\<close>

theorem login_success_starts_polling_witness:
  "sessionEnvelope ''onLoggedIn'' ''action'' = Some (JStr ''onLoggedIn'') \<and>
   isLoggedIn (deliver noNumber \<lparr>url = ''/login?var=callBack&username=u1&password=secret'',
                                 callbackError = Some LoginFailed\<rparr>
                 (Response 200 (Object (sessionEnvelope ''onLoggedIn''))) loginSubmitted) \<and>
   statusPollInterval
     (deliver noNumber \<lparr>url = ''/login?var=callBack&username=u1&password=secret'',
                        callbackError = Some LoginFailed\<rparr>
        (Response 200 (Object (sessionEnvelope ''onLoggedIn''))) loginSubmitted)
     = Some (nextIntervalId loginSubmitted)"
proof -
  let ?d = "sessionEnvelope ''onLoggedIn''"
  have a: "?d ''action'' = Some (JStr ''onLoggedIn'')" by (simp add: sessionEnvelope_def)
  have b: "truthyField ?d ''logged_in''" by (simp add: sessionEnvelope_def truthyField_def)
  have c: "protocol loginSubmitted \<noteq> ''file:''" by code_simp
  have e: "statusPollInterval loginSubmitted = None" by code_simp
  from login_success_starts_polling[OF a b c e, of noNumber] a
  show ?thesis by blast
qed

text \<open>
  Duration formatting: the four segments of \<^verbatim>\<open>1d2h3m4s\<close> come in the order day, hour,
  minute, second; \<^verbatim>\<open>45s\<close> gives the seconds alone; a text without a segment is
  returned as it is.
\<close>

theorem toArabicTime_examples:
  "toArabicTime ''1d2h3m4s''
     = ''1 '' @ WORD_DAY @ '' 2 '' @ WORD_HOUR @ '' 3 '' @ WORD_MINUTE @ '' 4 '' @ WORD_SECOND \<and>
   toArabicTime ''45s'' = ''45 '' @ WORD_SECOND \<and>
   toArabicTime ''xyz'' = ''xyz''"
  by code_simp

section \<open>Identifier masking\<close>





section \<open>Error-text localization\<close>

text \<open>
  No key of the table holds \<^verbatim>\<open>|\<close>, so the loop returns the message of the first
  entry, in the order of the table and past the two special keys, whose key occurs in the
  lower-cased text.
\<close>

lemma lookupError_find:
  "\<forall>e \<in> set t. \<not> includes_str (fst e) ''|'' \<Longrightarrow>
   lookupError t l =
     map_option snd (find (\<lambda>e. includes_str l (fst e))
                          (filter (\<lambda>(key, msg). \<not> includes_str key ''&'') t))"
  by (induction t) auto

lemma errorMap_no_bar: "\<forall>e \<in> set errorMap. \<not> includes_str (fst e) ''|''"
  by code_simp

lemma lookupError_errorMap:
  "lookupError errorMap l = map_option snd (find (\<lambda>e. includes_str l (fst e)) simpleEntries)"
  unfolding simpleEntries_def by (rule lookupError_find[OF errorMap_no_bar])

lemma simpleEntries_eq:
  "simpleEntries =
    [(''user not found'', MSG_USER_NOT_FOUND),
     (''simultaneous session limit reached'', MSG_CARD_IN_USE),
     (''no more sessions are allowed'', MSG_CARD_IN_USE),
     (''invalid password'', MSG_INVALID_PASSWORD),
     (''uptime limit reached'', MSG_TIME_EXPIRED),
     (''no more online time'', MSG_TIME_EXPIRED),
     (''uptime limit'', MSG_TIME_EXPIRED),
     (''traffic limit reached'', MSG_BALANCE_EXPIRED),
     (''transfer limit reached'', MSG_BALANCE_EXPIRED),
     (''invalid username or password'', MSG_BAD_CREDENTIALS),
     (''not found'', MSG_BAD_CREDENTIALS),
     (''no valid profile found'', MSG_CARD_EXPIRED),
     (''invalid calling-station-id'', MSG_OTHER_DEVICE),
     (''allowed to log in from this mac'', MSG_MAC_RESERVED)]"
  by code_simp

lemma errorMapAt_special:
  "errorMapAt KEY_SERVER = MSG_SERVER_NOT_RESPONDING" "errorMapAt KEY_WEB = MSG_RETRY_CARD"
  by code_simp+

lemma toArabicError_table:
  assumes "raw \<noteq> []" "\<not> serverCheck (toLowerCase raw)" "\<not> browserCheck (toLowerCase raw)"
  shows "toArabicError raw =
           (case find (\<lambda>e. includes_str (toLowerCase raw) (fst e)) simpleEntries of
              Some e \<Rightarrow> snd e
            | None \<Rightarrow> ERROR_PREFIX @ raw)"
  using assms by (simp add: toArabicError_def lookupError_errorMap split: option.splits)

text \<open>
  Claim C9, as the script has it. The empty text gives the fixed unknown-error message.
  Every other raw text is lower-cased and matched against the table: first the two checks
  on several keywords (server, is, responding; then web, browser, did, send), then the
  simple keys by containment in table order, the first key found deciding the message;
  a text that matches nothing gives the generic fallback, the prefix followed by the raw
  text as it came. A text containing \<^verbatim>\<open>invalid password\<close> gives the password message,
  and a text containing \<^verbatim>\<open>uptime limit\<close> gives the time-expired message, when neither
  check on several keywords holds and no earlier key of the table occurs in it.
\<close>

theorem toArabicError_priority:
  "(raw = [] \<longrightarrow> toArabicError raw = MSG_UNKNOWN_ERROR) \<and>
   (raw \<noteq> [] \<and> serverCheck (toLowerCase raw) \<longrightarrow>
      toArabicError raw = MSG_SERVER_NOT_RESPONDING) \<and>
   (raw \<noteq> [] \<and> \<not> serverCheck (toLowerCase raw) \<and> browserCheck (toLowerCase raw) \<longrightarrow>
      toArabicError raw = MSG_RETRY_CARD) \<and>
   (raw \<noteq> [] \<and> \<not> serverCheck (toLowerCase raw) \<and> \<not> browserCheck (toLowerCase raw) \<longrightarrow>
      (\<forall>i < length simpleEntries.
          includes_str (toLowerCase raw) (fst (simpleEntries ! i)) \<and>
          (\<forall>j < i. \<not> includes_str (toLowerCase raw) (fst (simpleEntries ! j))) \<longrightarrow>
          toArabicError raw = snd (simpleEntries ! i)) \<and>
      ((\<forall>e \<in> set simpleEntries. \<not> includes_str (toLowerCase raw) (fst e)) \<longrightarrow>
          toArabicError raw = ERROR_PREFIX @ raw) \<and>
      (includes_str (toLowerCase raw) ''invalid password'' \<and>
       \<not> includes_str (toLowerCase raw) ''user not found'' \<and>
       \<not> includes_str (toLowerCase raw) ''simultaneous session limit reached'' \<and>
       \<not> includes_str (toLowerCase raw) ''no more sessions are allowed'' \<longrightarrow>
          toArabicError raw = MSG_INVALID_PASSWORD) \<and>
      (includes_str (toLowerCase raw) ''uptime limit'' \<and>
       \<not> includes_str (toLowerCase raw) ''user not found'' \<and>
       \<not> includes_str (toLowerCase raw) ''simultaneous session limit reached'' \<and>
       \<not> includes_str (toLowerCase raw) ''no more sessions are allowed'' \<and>
       \<not> includes_str (toLowerCase raw) ''invalid password'' \<longrightarrow>
          toArabicError raw = MSG_TIME_EXPIRED))"
proof (intro conjI impI allI)
  assume "raw = []" then show "toArabicError raw = MSG_UNKNOWN_ERROR"
    by (simp add: toArabicError_def)
next
  assume "raw \<noteq> [] \<and> serverCheck (toLowerCase raw)"
  then show "toArabicError raw = MSG_SERVER_NOT_RESPONDING"
    by (simp add: toArabicError_def errorMapAt_special)
next
  assume "raw \<noteq> [] \<and> \<not> serverCheck (toLowerCase raw) \<and> browserCheck (toLowerCase raw)"
  then show "toArabicError raw = MSG_RETRY_CARD"
    by (simp add: toArabicError_def errorMapAt_special)
next
  fix i
  assume a: "raw \<noteq> [] \<and> \<not> serverCheck (toLowerCase raw) \<and> \<not> browserCheck (toLowerCase raw)"
    and i: "i < length simpleEntries"
    and m: "includes_str (toLowerCase raw) (fst (simpleEntries ! i)) \<and>
            (\<forall>j < i. \<not> includes_str (toLowerCase raw) (fst (simpleEntries ! j)))"
  from i m have "find (\<lambda>e. includes_str (toLowerCase raw) (fst e)) simpleEntries
                   = Some (simpleEntries ! i)"
    unfolding find_Some_iff by blast
  with a show "toArabicError raw = snd (simpleEntries ! i)"
    by (simp add: toArabicError_table)
next
  assume a: "raw \<noteq> [] \<and> \<not> serverCheck (toLowerCase raw) \<and> \<not> browserCheck (toLowerCase raw)"
    and n: "\<forall>e \<in> set simpleEntries. \<not> includes_str (toLowerCase raw) (fst e)"
  from n have "find (\<lambda>e. includes_str (toLowerCase raw) (fst e)) simpleEntries = None"
    unfolding find_None_iff by blast
  with a show "toArabicError raw = ERROR_PREFIX @ raw"
    by (simp add: toArabicError_table)
next
  assume a: "raw \<noteq> [] \<and> \<not> serverCheck (toLowerCase raw) \<and> \<not> browserCheck (toLowerCase raw)"
    and m: "includes_str (toLowerCase raw) ''invalid password'' \<and>
       \<not> includes_str (toLowerCase raw) ''user not found'' \<and>
       \<not> includes_str (toLowerCase raw) ''simultaneous session limit reached'' \<and>
       \<not> includes_str (toLowerCase raw) ''no more sessions are allowed''"
  then show "toArabicError raw = MSG_INVALID_PASSWORD"
    by (simp add: toArabicError_table simpleEntries_eq)
next
  assume a: "raw \<noteq> [] \<and> \<not> serverCheck (toLowerCase raw) \<and> \<not> browserCheck (toLowerCase raw)"
    and m: "includes_str (toLowerCase raw) ''uptime limit'' \<and>
       \<not> includes_str (toLowerCase raw) ''user not found'' \<and>
       \<not> includes_str (toLowerCase raw) ''simultaneous session limit reached'' \<and>
       \<not> includes_str (toLowerCase raw) ''no more sessions are allowed'' \<and>
       \<not> includes_str (toLowerCase raw) ''invalid password''"
  then show "toArabicError raw = MSG_TIME_EXPIRED"
    by (simp add: toArabicError_table simpleEntries_eq)
qed

text \<open>
  Each case at a text of its own: the empty text, the two checks on several keywords, the
  fourth entry of the table, an unmatched text, and the two named keys.
\<close>

theorem toArabicError_priority_witness:
  "toArabicError [] = MSG_UNKNOWN_ERROR \<and>
   toArabicError ''RADIUS server is not responding'' = MSG_SERVER_NOT_RESPONDING \<and>
   toArabicError ''Web browser did not send challenge response'' = MSG_RETRY_CARD \<and>
   toArabicError ''Invalid Password'' = snd (simpleEntries ! 3) \<and>
   toArabicError ''no route to host'' = ERROR_PREFIX @ ''no route to host'' \<and>
   toArabicError ''Invalid password'' = MSG_INVALID_PASSWORD \<and>
   toArabicError ''Uptime Limit'' = MSG_TIME_EXPIRED"
proof -
  note t = toArabicError_priority
  have 1: "toArabicError [] = MSG_UNKNOWN_ERROR" using t[of "[]"] by blast
  have "''RADIUS server is not responding'' \<noteq> [] \<and>
        serverCheck (toLowerCase ''RADIUS server is not responding'')" by code_simp
  then have 2: "toArabicError ''RADIUS server is not responding'' = MSG_SERVER_NOT_RESPONDING"
    using t[of "''RADIUS server is not responding''"] by blast
  have "''Web browser did not send challenge response'' \<noteq> [] \<and>
        \<not> serverCheck (toLowerCase ''Web browser did not send challenge response'') \<and>
        browserCheck (toLowerCase ''Web browser did not send challenge response'')" by code_simp
  then have 3: "toArabicError ''Web browser did not send challenge response'' = MSG_RETRY_CARD"
    using t[of "''Web browser did not send challenge response''"] by blast
  have g: "''Invalid Password'' \<noteq> [] \<and> \<not> serverCheck (toLowerCase ''Invalid Password'') \<and>
        \<not> browserCheck (toLowerCase ''Invalid Password'')" by code_simp
  have l: "toLowerCase ''Invalid Password'' = ''invalid password''" by code_simp
  have i: "3 < length simpleEntries" by (simp add: simpleEntries_eq)
  have m: "includes_str (toLowerCase ''Invalid Password'') (fst (simpleEntries ! 3))"
    unfolding l by (simp add: simpleEntries_eq)
  have n: "\<forall>j<3. \<not> includes_str (toLowerCase ''Invalid Password'') (fst (simpleEntries ! j))"
    unfolding l by (simp add: simpleEntries_eq numeral_3_eq_3 less_Suc_eq)
  have 4: "toArabicError ''Invalid Password'' = snd (simpleEntries ! 3)"
    using t[of "''Invalid Password''"] g i m n by blast
  have "''no route to host'' \<noteq> [] \<and> \<not> serverCheck (toLowerCase ''no route to host'') \<and>
        \<not> browserCheck (toLowerCase ''no route to host'') \<and>
        (\<forall>e \<in> set simpleEntries. \<not> includes_str (toLowerCase ''no route to host'') (fst e))"
    by code_simp
  then have 5: "toArabicError ''no route to host'' = ERROR_PREFIX @ ''no route to host''"
    using t[of "''no route to host''"] by blast
  have "''Invalid password'' \<noteq> [] \<and> \<not> serverCheck (toLowerCase ''Invalid password'') \<and>
        \<not> browserCheck (toLowerCase ''Invalid password'') \<and>
        includes_str (toLowerCase ''Invalid password'') ''invalid password'' \<and>
        \<not> includes_str (toLowerCase ''Invalid password'') ''user not found'' \<and>
        \<not> includes_str (toLowerCase ''Invalid password'') ''simultaneous session limit reached'' \<and>
        \<not> includes_str (toLowerCase ''Invalid password'') ''no more sessions are allowed''"
    by code_simp
  then have 6: "toArabicError ''Invalid password'' = MSG_INVALID_PASSWORD"
    using t[of "''Invalid password''"] by blast
  have "''Uptime Limit'' \<noteq> [] \<and> \<not> serverCheck (toLowerCase ''Uptime Limit'') \<and>
        \<not> browserCheck (toLowerCase ''Uptime Limit'') \<and>
        includes_str (toLowerCase ''Uptime Limit'') ''uptime limit'' \<and>
        \<not> includes_str (toLowerCase ''Uptime Limit'') ''user not found'' \<and>
        \<not> includes_str (toLowerCase ''Uptime Limit'') ''simultaneous session limit reached'' \<and>
        \<not> includes_str (toLowerCase ''Uptime Limit'') ''no more sessions are allowed'' \<and>
        \<not> includes_str (toLowerCase ''Uptime Limit'') ''invalid password''"
    by code_simp
  then have 7: "toArabicError ''Uptime Limit'' = MSG_TIME_EXPIRED"
    using t[of "''Uptime Limit''"] by blast
  from 1 2 3 4 5 6 7 show ?thesis by blast
qed

text \<open>
  The empty text matches nothing and yet does not give the fallback; a text that
  contains \<^verbatim>\<open>invalid password\<close> after \<^verbatim>\<open>user not found\<close>, or together with the
  keywords of the first check, gives the message of the earlier rule; and the words
  \<^verbatim>\<open>uptime\<close> and \<^verbatim>\<open>limit\<close> apart from each other do not give the time-expired
  message.
\<close>

theorem toArabicError_counterexample:
  "\<not> serverCheck (toLowerCase []) \<and> \<not> browserCheck (toLowerCase []) \<and>
   lookupError errorMap (toLowerCase []) = None \<and>
   toArabicError [] \<noteq> ERROR_PREFIX @ [] \<and>
   includes_str (toLowerCase ''user not found or invalid password'') ''invalid password'' \<and>
   toArabicError ''user not found or invalid password'' \<noteq> MSG_INVALID_PASSWORD \<and>
   includes_str (toLowerCase ''invalid password, server is not responding'') ''invalid password'' \<and>
   toArabicError ''invalid password, server is not responding'' \<noteq> MSG_INVALID_PASSWORD \<and>
   includes_str (toLowerCase ''limit of uptime exceeded'') ''uptime'' \<and>
   includes_str (toLowerCase ''limit of uptime exceeded'') ''limit'' \<and>
   toArabicError ''limit of uptime exceeded'' \<noteq> MSG_TIME_EXPIRED"
  by code_simp

section \<open>Byte-count formatting\<close>

text \<open>The digits of a number of at least 100, and \<open>toFixed2\<close> from one gigabyte on.\<close>

lemma decimal_two_digits:
  assumes "100 \<le> h"
  shows "decimal h = decimal (h div 100) @ [digitChar (h div 10 mod 10), digitChar (h mod 10)]"
proof -
  have a: "decimal h = decimal (h div 10) @ [digitChar (h mod 10)]"
    using assms by (subst decimal.simps) simp
  have "10 \<le> h div 10" using assms by presburger
  then have b: "decimal (h div 10) = decimal (h div 10 div 10) @ [digitChar (h div 10 mod 10)]"
    by (subst decimal.simps) simp
  have "h div 10 div 10 = h div 100" by (simp add: div_mult2_eq[symmetric])
  with a b show ?thesis by simp
qed

lemma decimal_nonempty: "decimal n \<noteq> []"
  by (subst decimal.simps) simp

lemma toFixed2_large:
  assumes "0 \<le> x" "100 \<le> h" "h = nat \<lfloor>x * 100 + 1 / 2\<rfloor>"
  shows "toFixed2 x =
           decimal (h div 100) @ ''.'' @ [digitChar (h div 10 mod 10), digitChar (h mod 10)]"
proof -
  define D where "D = decimal (h div 100)"
  define ab where "ab = [digitChar (h div 10 mod 10), digitChar (h mod 10)]"
  have m: "decimal h = D @ ab"
    unfolding D_def ab_def using assms(2) by (rule decimal_two_digits)
  have D: "D \<noteq> []" unfolding D_def by (rule decimal_nonempty)
  have l: "length ab = 2" unfolding ab_def by simp
  from D l have "\<not> length (D @ ab) \<le> 2" by (cases D) auto
  moreover from l have "take (length (D @ ab) - 2) (D @ ab) = D"
    and "drop (length (D @ ab) - 2) (D @ ab) = ab" by auto
  moreover have "nat \<lfloor>x * 100 + 1 / 2\<rfloor> = h" using assms(3) by simp
  ultimately have "toFixed2 x = D @ ''.'' @ ab"
    using assms(1) by (simp add: toFixed2_def Let_def m)
  then show ?thesis unfolding D_def ab_def .
qed

lemma gb_hundredths:
  "\<lfloor>(of_int n :: rat) / 1073741824 * 100 + 1 / 2\<rfloor> = (100 * n + 536870912) div 1073741824"
proof -
  have "(of_int n :: rat) / 1073741824 * 100 + 1 / 2
          = of_int (100 * n + 536870912) / of_int 1073741824"
    by (simp add: field_simps)
  then show ?thesis by (simp only: floor_divide_of_int_eq)
qed

lemma toFixed2_gb:
  assumes "1073741824 \<le> n" "h = nat ((100 * n + 536870912) div 1073741824)"
  shows "toFixed2 (of_int n / 1073741824) =
           decimal (h div 100) @ ''.'' @ [digitChar (h div 10 mod 10), digitChar (h mod 10)]"
proof (rule toFixed2_large)
  show "(0::rat) \<le> of_int n / 1073741824" using assms(1) by simp
  have "(100 * 1073741824) div 1073741824 \<le> (100 * n + 536870912) div (1073741824::int)"
    using assms(1) by (intro zdiv_mono1) auto
  then show "100 \<le> h" unfolding assms(2) by simp
  show "h = nat \<lfloor>(of_int n :: rat) / 1073741824 * 100 + 1 / 2\<rfloor>"
    unfolding assms(2) by (simp only: gb_hundredths)
qed

lemma spec_largestUnit_cases:
  "1 \<le> n \<Longrightarrow> n < 1024 \<Longrightarrow> spec_largestUnit n = 1"
  "1024 \<le> n \<Longrightarrow> n < 1048576 \<Longrightarrow> spec_largestUnit n = 1024"
  "1048576 \<le> n \<Longrightarrow> n < 1073741824 \<Longrightarrow> spec_largestUnit n = 1048576"
  "1073741824 \<le> n \<Longrightarrow> spec_largestUnit n = 1073741824"
  by (simp_all add: spec_largestUnit_def spec_units_def)

lemma nearest_multiple:
  assumes "0 < (d::int)"
  shows "\<bar>n - 2 * d * ((n + d) div (2 * d))\<bar> \<le> d"
proof -
  have "n + d = 2 * d * ((n + d) div (2 * d)) + (n + d) mod (2 * d)" by simp
  moreover have "0 \<le> (n + d) mod (2 * d)" "(n + d) mod (2 * d) < 2 * d"
    using assms by simp_all
  ultimately show ?thesis by linarith
qed

text \<open>
  Claim C10. A value that \<^verbatim>\<open>Number\<close> does not read as a number is returned unchanged.
  A byte count of at least 1 is shown in the largest of the units byte, kilobyte,
  megabyte, gigabyte (multiples of 1024) that does not exceed it: below 1024 the count
  itself in bytes; then the nearest integer of kilobytes, then of megabytes (the shown
  integer times the unit differs from the count by at most half a unit); from one
  gigabyte on the count in hundredths of a gigabyte, nearest, written with two decimals.
  So 500 gives 500 bytes, 2048 gives 2 kilobytes, 5242880 gives 5 megabytes and
  2147483648 gives 2.00 gigabytes.
\<close>

theorem toArabicBytes_format:
  "(Number N v = None \<longrightarrow> toArabicBytes N v = v) \<and>
   (Number N v = Some n \<and> 1 \<le> n \<longrightarrow>
      (\<exists>digits. toArabicBytes N v
                  = JStr (digits @ '' '' @ spec_unitLabel (spec_largestUnit n)))) \<and>
   (Number N v = Some n \<and> n < 1024 \<longrightarrow>
      toArabicBytes N v = JStr (showInt n @ '' '' @ UNIT_BYTE)) \<and>
   (Number N v = Some n \<and> 1024 \<le> n \<and> n < 1048576 \<longrightarrow>
      toArabicBytes N v = JStr (showInt ((n + 512) div 1024) @ '' '' @ UNIT_KILOBYTE) \<and>
      \<bar>n - 1024 * ((n + 512) div 1024)\<bar> \<le> 512) \<and>
   (Number N v = Some n \<and> 1048576 \<le> n \<and> n < 1073741824 \<longrightarrow>
      toArabicBytes N v
        = JStr (showInt ((n + 524288) div 1048576) @ '' '' @ UNIT_MEGABYTE) \<and>
      \<bar>n - 1048576 * ((n + 524288) div 1048576)\<bar> \<le> 524288) \<and>
   (Number N v = Some n \<and> 1073741824 \<le> n \<longrightarrow>
      (let h = (100 * n + 536870912) div 1073741824
       in toArabicBytes N v
            = JStr (decimal (nat h div 100) @ ''.''
                    @ [digitChar (nat h div 10 mod 10), digitChar (nat h mod 10)]
                    @ '' '' @ UNIT_GIGABYTE) \<and>
          \<bar>100 * n - 1073741824 * h\<bar> \<le> 536870912)) \<and>
   toArabicBytes N (JNum 500) = JStr (''500 '' @ UNIT_BYTE) \<and>
   toArabicBytes N (JNum 2048) = JStr (''2 '' @ UNIT_KILOBYTE) \<and>
   toArabicBytes N (JNum 5242880) = JStr (''5 '' @ UNIT_MEGABYTE) \<and>
   toArabicBytes N (JNum 2147483648) = JStr (''2.00 '' @ UNIT_GIGABYTE)"
proof -
  have nan: "Number N v = None \<longrightarrow> toArabicBytes N v = v"
    by (simp add: toArabicBytes_def)
  have b: "Number N v = Some n \<and> n < 1024 \<longrightarrow>
      toArabicBytes N v = JStr (showInt n @ '' '' @ UNIT_BYTE)"
    by (simp add: toArabicBytes_def)
  have kb: "Number N v = Some n \<and> 1024 \<le> n \<and> n < 1048576 \<longrightarrow>
      toArabicBytes N v = JStr (showInt ((n + 512) div 1024) @ '' '' @ UNIT_KILOBYTE) \<and>
      \<bar>n - 1024 * ((n + 512) div 1024)\<bar> \<le> 512"
    using nearest_multiple[of 512 n] by (simp add: toArabicBytes_def round_kb)
  have mb: "Number N v = Some n \<and> 1048576 \<le> n \<and> n < 1073741824 \<longrightarrow>
      toArabicBytes N v
        = JStr (showInt ((n + 524288) div 1048576) @ '' '' @ UNIT_MEGABYTE) \<and>
      \<bar>n - 1048576 * ((n + 524288) div 1048576)\<bar> \<le> 524288"
    using nearest_multiple[of 524288 n] by (simp add: toArabicBytes_def round_mb)
  have gb: "Number N v = Some n \<and> 1073741824 \<le> n \<longrightarrow>
      (let h = (100 * n + 536870912) div 1073741824
       in toArabicBytes N v
            = JStr (decimal (nat h div 100) @ ''.''
                    @ [digitChar (nat h div 10 mod 10), digitChar (nat h mod 10)]
                    @ '' '' @ UNIT_GIGABYTE) \<and>
          \<bar>100 * n - 1073741824 * h\<bar> \<le> 536870912)"
  proof
    assume a: "Number N v = Some n \<and> 1073741824 \<le> n"
    then have "toArabicBytes N v = JStr (toFixed2 (of_int n / 1073741824) @ '' '' @ UNIT_GIGABYTE)"
      by (simp add: toArabicBytes_def)
    moreover have "\<bar>100 * n - 1073741824 * ((100 * n + 536870912) div 1073741824)\<bar> \<le> 536870912"
      using nearest_multiple[of 536870912 "100 * n"] by simp
    ultimately show "let h = (100 * n + 536870912) div 1073741824
       in toArabicBytes N v
            = JStr (decimal (nat h div 100) @ ''.''
                    @ [digitChar (nat h div 10 mod 10), digitChar (nat h mod 10)]
                    @ '' '' @ UNIT_GIGABYTE) \<and>
          \<bar>100 * n - 1073741824 * h\<bar> \<le> 536870912"
      using a toFixed2_gb[of n "nat ((100 * n + 536870912) div 1073741824)"]
      by (simp add: Let_def)
  qed
  have u: "Number N v = Some n \<and> 1 \<le> n \<longrightarrow>
      (\<exists>digits. toArabicBytes N v
                  = JStr (digits @ '' '' @ spec_unitLabel (spec_largestUnit n)))"
  proof
    assume a: "Number N v = Some n \<and> 1 \<le> n"
    consider "n < 1024" | "1024 \<le> n" "n < 1048576" | "1048576 \<le> n" "n < 1073741824"
      | "1073741824 \<le> n" by linarith
    then show "\<exists>digits. toArabicBytes N v
                  = JStr (digits @ '' '' @ spec_unitLabel (spec_largestUnit n))"
    proof cases
      case 1
      with a b show ?thesis by (auto simp: spec_largestUnit_cases spec_unitLabel_def)
    next
      case 2
      with a kb show ?thesis by (auto simp: spec_largestUnit_cases spec_unitLabel_def)
    next
      case 3
      with a mb show ?thesis by (auto simp: spec_largestUnit_cases spec_unitLabel_def)
    next
      case 4
      with a gb have "toArabicBytes N v
          = JStr ((decimal (nat ((100 * n + 536870912) div 1073741824) div 100) @ ''.''
                    @ [digitChar (nat ((100 * n + 536870912) div 1073741824) div 10 mod 10),
                       digitChar (nat ((100 * n + 536870912) div 1073741824) mod 10)])
                  @ '' '' @ UNIT_GIGABYTE)"
        by (simp add: Let_def)
      with 4 show ?thesis
        unfolding spec_largestUnit_cases(4)[OF 4] spec_unitLabel_def by (intro exI) simp
    qed
  qed
  have e1: "toArabicBytes N (JNum 500) = JStr (''500 '' @ UNIT_BYTE)"
    by code_simp
  have e2: "toArabicBytes N (JNum 2048) = JStr (''2 '' @ UNIT_KILOBYTE)"
    by code_simp
  have e3: "toArabicBytes N (JNum 5242880) = JStr (''5 '' @ UNIT_MEGABYTE)"
    by code_simp
  have e4: "toArabicBytes N (JNum 2147483648) = JStr (''2.00 '' @ UNIT_GIGABYTE)"
    by code_simp
  from nan u b kb mb gb e1 e2 e3 e4 show ?thesis by blast
qed

text \<open>
  A text that is no number, and one count in each unit: 0, a kilobyte and a half,
  three and a half megabytes, a gigabyte and a half.
\<close>

theorem toArabicBytes_format_witness:
  "toArabicBytes (\<lambda>s. None) (JStr ''unlimited'') = JStr ''unlimited'' \<and>
   toArabicBytes (\<lambda>s. None) (JNum 1536) = JStr (''2 '' @ UNIT_KILOBYTE) \<and>
   toArabicBytes (\<lambda>s. None) (JNum 0) = JStr (''0 '' @ UNIT_BYTE) \<and>
   toArabicBytes (\<lambda>s. None) (JNum 3670016) = JStr (''4 '' @ UNIT_MEGABYTE) \<and>
   toArabicBytes (\<lambda>s. None) (JNum 1610612736) = JStr (''1.50 '' @ UNIT_GIGABYTE)"
proof -
  have 1: "toArabicBytes (\<lambda>s. None) (JStr ''unlimited'') = JStr ''unlimited''"
    using toArabicBytes_format[of "\<lambda>s. None" "JStr ''unlimited''"] by simp
  have 2: "toArabicBytes (\<lambda>s. None) (JNum 1536) = JStr (''2 '' @ UNIT_KILOBYTE)"
  proof -
    have "showInt ((1536 + 512) div 1024) = ''2''" by code_simp
    then show ?thesis
      using toArabicBytes_format[of "\<lambda>s. None" "JNum 1536" 1536] by simp
  qed
  have 3: "toArabicBytes (\<lambda>s. None) (JNum 0) = JStr (''0 '' @ UNIT_BYTE)"
  proof -
    have "showInt 0 = ''0''" by code_simp
    then show ?thesis
      using toArabicBytes_format[of "\<lambda>s. None" "JNum 0" 0] by simp
  qed
  have 4: "toArabicBytes (\<lambda>s. None) (JNum 3670016) = JStr (''4 '' @ UNIT_MEGABYTE)"
  proof -
    have "showInt ((3670016 + 524288) div 1048576) = ''4''" by code_simp
    then show ?thesis
      using toArabicBytes_format[of "\<lambda>s. None" "JNum 3670016" 3670016] by simp
  qed
  have 5: "toArabicBytes (\<lambda>s. None) (JNum 1610612736) = JStr (''1.50 '' @ UNIT_GIGABYTE)"
  proof -
    have "(let h = (100 * 1610612736 + 536870912) div (1073741824::int)
           in decimal (nat h div 100) @ ''.''
                @ [digitChar (nat h div 10 mod 10), digitChar (nat h mod 10)]) = ''1.50''"
      by code_simp
    then show ?thesis
      using toArabicBytes_format[of "\<lambda>s. None" "JNum 1610612736" 1610612736]
      by (simp add: Let_def)
  qed
  from 1 2 3 4 5 show ?thesis by blast
qed

end
